theory Spec2Isabelle
  imports Complex_Main
begin

section \<open>Python exceptions and formatting\<close>

text \<open>
  Every exception the modelled code or the tensor library can raise is a value.  The
  messages of the two \<^verbatim>\<open>raise ValueError(...)\<close> statements of
  \<^verbatim>\<open>M2M100Attention.__call__\<close> are built exactly as the f-strings of the source
  build them; messages of exceptions raised inside the library or by the interpreter are
  abbreviated.
\<close>

datatype error =
    ValueError string
  | TypeError string
  | AttributeError string
  | ZeroDivisionError string
  | IndexError string

fun ebind :: "error + 'a \<Rightarrow> ('a \<Rightarrow> error + 'b) \<Rightarrow> error + 'b" where
  "ebind (Inl e) f = Inl e"
| "ebind (Inr x) f = f x"

definition digit_char :: "nat \<Rightarrow> char" where
  "digit_char d = ''0123456789'' ! d"

fun str_nat :: "nat \<Rightarrow> string" where
  "str_nat n = (if n < 10 then [digit_char n] else str_nat (n div 10) @ [digit_char (n mod 10)])"

declare str_nat.simps [simp del]

definition str_int :: "int \<Rightarrow> string" where
  "str_int i = (if i < 0 then CHR ''-'' # str_nat (nat (- i)) else str_nat (nat i))"

fun join_comma :: "string list \<Rightarrow> string" where
  "join_comma [] = []"
| "join_comma [s] = s"
| "join_comma (s # t # ts) = s @ '', '' @ join_comma (t # ts)"

definition str_tuple :: "int list \<Rightarrow> string" where
  \<comment> \<open>Python's \<^verbatim>\<open>str\<close> of a tuple of ints: \<^verbatim>\<open>()\<close>, \<^verbatim>\<open>(3,)\<close>, \<^verbatim>\<open>(1, 2, 3)\<close>.\<close>
  "str_tuple xs =
     (case xs of
        [x] \<Rightarrow> ''('' @ str_int x @ '',)''
      | _ \<Rightarrow> ''('' @ join_comma (map str_int xs) @ '')'')"

text \<open>
  Reading a printed tuple back.  These functions are not part of the code: they state what
  it means for a message to report a shape, namely that the shape can be recovered from
  it.  \<open>message_shapes\<close> returns the two tuples that a message holds, in their order.
\<close>

definition digit_value :: "char \<Rightarrow> nat" where
  "digit_value c = length (takeWhile (\<lambda>d. d \<noteq> c) ''0123456789'')"

definition parse_nat :: "string \<Rightarrow> nat" where
  "parse_nat s = foldl (\<lambda>a c. 10 * a + digit_value c) 0 s"

definition parse_int :: "string \<Rightarrow> int" where
  "parse_int s =
     (case s of
        [] \<Rightarrow> 0
      | c # cs \<Rightarrow> if c = CHR ''-'' then - int (parse_nat cs) else int (parse_nat s))"

fun split_items :: "string \<Rightarrow> string \<Rightarrow> string list" where
  "split_items item [] = [item]"
| "split_items item (c # cs) =
     (if c = CHR '','' then item # split_items [] cs
      else if c = CHR '' '' \<or> c = CHR ''('' \<or> c = CHR '')'' then split_items item cs
      else split_items (item @ [c]) cs)"

definition parse_tuple :: "string \<Rightarrow> int list" where
  "parse_tuple s = map parse_int (filter (\<lambda>item. item \<noteq> []) (split_items [] s))"

definition message_shapes :: "string \<Rightarrow> int list \<times> int list" where
  "message_shapes msg =
     (let from_first = dropWhile (\<lambda>c. c \<noteq> CHR ''('') msg;
          after_first = dropWhile (\<lambda>c. c \<noteq> CHR '')'') from_first
      in (parse_tuple (takeWhile (\<lambda>c. c \<noteq> CHR '')'') from_first),
          parse_tuple (dropWhile (\<lambda>c. c \<noteq> CHR ''('') after_first)))"

definition item_char :: "char \<Rightarrow> bool" where
  "item_char c = (c \<noteq> CHR '','' \<and> c \<noteq> CHR '' '' \<and> c \<noteq> CHR ''('' \<and> c \<noteq> CHR '')'')"

section \<open>ModelArgs\<close>

record ModelArgs =
  vocab_size :: int
  max_position_embeddings :: int
  encoder_layers :: int
  encoder_ffn_dim :: int
  encoder_attention_heads :: int
  decoder_layers :: int
  decoder_ffn_dim :: int
  decoder_attention_heads :: int
  encoder_layerdrop :: real
  decoder_layerdrop :: real
  use_cache :: bool
  is_encoder_decoder :: bool
  activation_function :: string
  d_model :: int
  dropout :: real
  attention_dropout :: real
  activation_dropout :: real
  init_std :: real
  decoder_start_token_id :: int
  scale_embedding :: bool
  pad_token_id :: int
  bos_token_id :: int
  eos_token_id :: int
  num_hidden_layers :: int

section \<open>Arrays of the tensor library\<close>

text \<open>
  An \<^verbatim>\<open>mx.array\<close> is its shape and its elements in row-major order.  Token ids are
  arrays of \<^typ>\<open>int\<close>, activations arrays of \<^typ>\<open>real\<close>: rounding of the
  floating-point formats is not modelled.
\<close>

record 'a mx_array =
  shape :: "nat list"
  data :: "'a list"

record Linear =
  weight :: "real mx_array"
  bias :: "real mx_array option"

record LayerNorm =
  ln_eps :: real
  ln_weight :: "real mx_array"
  ln_bias :: "real mx_array"

text \<open>
  Row-major addressing: \<open>unravel s j\<close> is the index tuple of the \<open>j\<close>-th element of an
  array of shape \<open>s\<close>, \<open>ravel s idx\<close> the position of the element at \<open>idx\<close>.
\<close>

fun unravel :: "nat list \<Rightarrow> nat \<Rightarrow> nat list" where
  "unravel [] j = []"
| "unravel (d # ds) j = (j div prod_list ds) # unravel ds (j mod prod_list ds)"

fun ravel :: "nat list \<Rightarrow> nat list \<Rightarrow> nat" where
  "ravel (d # ds) (i # idx) = i * prod_list ds + ravel ds idx"
| "ravel _ _ = 0"

definition mx_size :: "'a mx_array \<Rightarrow> nat" where
  \<comment> \<open>the property \<^verbatim>\<open>array.size\<close>: the number of elements\<close>
  "mx_size a = prod_list (shape a)"

text \<open>
  \<^verbatim>\<open>array.reshape\<close>.  At most one dimension may be \<open>-1\<close>; it is inferred from the
  number of elements.  The library raises \<^verbatim>\<open>ValueError\<close> when the sizes do not agree.
\<close>

definition mx_reshape :: "'a mx_array \<Rightarrow> int list \<Rightarrow> error + 'a mx_array" where
  "mx_reshape a dims =
     (let n = int (mx_size a);
          known = prod_list (filter (\<lambda>d. d \<noteq> - 1) dims)
      in
      if 1 < length (filter (\<lambda>d. d = - 1) dims)
        then Inl (ValueError ''[reshape] Reshape can only infer one dimension.'')
      else if list_ex (\<lambda>d. d < - 1) dims
        then Inl (ValueError ''[reshape] Cannot reshape array into a negative dimension.'')
      else if list_ex (\<lambda>d. d = - 1) dims then
        (if known = 0 \<or> n mod known \<noteq> 0
           then Inl (ValueError ''[reshape] Cannot reshape array into the given shape.'')
         else Inr \<lparr> shape = map (\<lambda>d. nat (if d = - 1 then n div known else d)) dims,
                    data = data a \<rparr>)
      else if known \<noteq> n
        then Inl (ValueError ''[reshape] Cannot reshape array into the given shape.'')
      else Inr \<lparr> shape = map nat dims, data = data a \<rparr>)"

text \<open>
  \<^verbatim>\<open>array.transpose(*axes)\<close>: axis \<open>k\<close> of the result is axis \<open>axes ! k\<close> of the
  argument.
\<close>

definition index_of :: "nat list \<Rightarrow> nat \<Rightarrow> nat" where
  "index_of xs d = length (takeWhile (\<lambda>x. x \<noteq> d) xs)"

definition mx_transpose :: "'a mx_array \<Rightarrow> nat list \<Rightarrow> error + 'a mx_array" where
  "mx_transpose a axes =
     (let s = shape a in
      if sort axes \<noteq> [0..<length s]
        then Inl (ValueError ''[transpose] Received invalid axes.'')
      else
        let s' = map (\<lambda>p. s ! p) axes in
        Inr \<lparr> shape = s',
              data = map (\<lambda>j. let idx' = unravel s' j in
                                data a ! ravel s (map (\<lambda>d. idx' ! index_of axes d) [0..<length s]))
                         [0..<prod_list s'] \<rparr>)"

text \<open>\<^verbatim>\<open>mx.concatenate([a, b], axis)\<close> for a non-negative axis.\<close>

definition mx_concatenate :: "'a mx_array \<Rightarrow> 'a mx_array \<Rightarrow> nat \<Rightarrow> error + 'a mx_array" where
  "mx_concatenate a b axis =
     (let sa = shape a; sb = shape b in
      if length sa \<noteq> length sb \<or> length sa \<le> axis
          \<or> take axis sa \<noteq> take axis sb \<or> drop (Suc axis) sa \<noteq> drop (Suc axis) sb
        then Inl (ValueError ''[concatenate] All the input array dimensions must match.'')
      else
        let ca = prod_list (drop axis sa); cb = prod_list (drop axis sb) in
        Inr \<lparr> shape = sa[axis := sa ! axis + sb ! axis],
              data = concat (map (\<lambda>blk. take ca (drop (blk * ca) (data a))
                                          @ take cb (drop (blk * cb) (data b)))
                                 [0..<prod_list (take axis sa)]) \<rparr>)"

text \<open>
  The operator \<^verbatim>\<open>@\<close>.  The attention code only multiplies arrays of rank three whose
  leading dimensions are equal (both operands come out of a reshape to
  \<^verbatim>\<open>proj_shape\<close>); the model covers these operands and reports every other pair as
  the library's shape error.
\<close>

definition mx_matmul :: "real mx_array \<Rightarrow> real mx_array \<Rightarrow> error + real mx_array" where
  "mx_matmul a b =
     (let sa = shape a; sb = shape b in
      if length sa \<noteq> 3 \<or> length sb \<noteq> 3 \<or> sa ! 0 \<noteq> sb ! 0 \<or> sa ! 2 \<noteq> sb ! 1
        then Inl (ValueError ''[matmul] Incompatible shapes.'')
      else
        let s' = [sa ! 0, sa ! 1, sb ! 2] in
        Inr \<lparr> shape = s',
              data = map (\<lambda>j. let idx = unravel s' j in
                                (\<Sum>l \<leftarrow> [0..<sa ! 2].
                                   data a ! ravel sa [idx ! 0, idx ! 1, l]
                                   * data b ! ravel sb [idx ! 0, l, idx ! 2]))
                         [0..<prod_list s'] \<rparr>)"

text \<open>
  Elementwise binary operators with NumPy broadcasting: shapes are aligned at their last
  axes, and a dimension of size one is stretched.
\<close>

definition pad_shape :: "nat \<Rightarrow> nat list \<Rightarrow> nat list" where
  "pad_shape n s = replicate (n - length s) 1 @ s"

definition broadcastable :: "nat list \<Rightarrow> nat list \<Rightarrow> bool" where
  "broadcastable s t =
     (let n = max (length s) (length t) in
      list_all (\<lambda>(x, y). x = y \<or> x = 1 \<or> y = 1) (zip (pad_shape n s) (pad_shape n t)))"

definition broadcast_shape :: "nat list \<Rightarrow> nat list \<Rightarrow> nat list" where
  "broadcast_shape s t =
     (let n = max (length s) (length t) in
      map (\<lambda>(x, y). if x = 1 then y else x) (zip (pad_shape n s) (pad_shape n t)))"

definition broadcast_get :: "'a mx_array \<Rightarrow> nat \<Rightarrow> nat list \<Rightarrow> 'a" where
  \<comment> \<open>the element of \<open>a\<close> that index \<open>idx\<close> of the broadcast result reads\<close>
  "broadcast_get a n idx =
     (let s = pad_shape n (shape a) in
      data a ! ravel s (map (\<lambda>(d, i). if d = 1 then 0 else i) (zip s idx)))"

definition mx_binary ::
  "('a \<Rightarrow> 'a \<Rightarrow> 'a) \<Rightarrow> string \<Rightarrow> 'a mx_array \<Rightarrow> 'a mx_array \<Rightarrow> error + 'a mx_array" where
  "mx_binary f name a b =
     (if \<not> broadcastable (shape a) (shape b)
        then Inl (ValueError (''['' @ name @ ''] Shapes cannot be broadcast.''))
      else
        let s' = broadcast_shape (shape a) (shape b); n = length s' in
        Inr \<lparr> shape = s',
              data = map (\<lambda>j. let idx = unravel s' j in
                                f (broadcast_get a n idx) (broadcast_get b n idx))
                         [0..<prod_list s'] \<rparr>)"

definition mx_add :: "real mx_array \<Rightarrow> real mx_array \<Rightarrow> error + real mx_array" where
  "mx_add = mx_binary (+) ''add''"

definition mx_multiply :: "real mx_array \<Rightarrow> real mx_array \<Rightarrow> error + real mx_array" where
  "mx_multiply = mx_binary (*) ''multiply''"

definition mx_scale :: "real mx_array \<Rightarrow> real \<Rightarrow> real mx_array" where
  \<comment> \<open>multiplication by a Python scalar\<close>
  "mx_scale a c = \<lparr> shape = shape a, data = map (\<lambda>x. x * c) (data a) \<rparr>"

text \<open>Rows along the last axis, for the reductions over \<^verbatim>\<open>axis=-1\<close>.\<close>

definition last_dim :: "nat list \<Rightarrow> nat" where
  "last_dim s = (if s = [] then 1 else last s)"

definition rows :: "'a mx_array \<Rightarrow> 'a list list" where
  "rows a =
     (let d = last_dim (shape a) in
      map (\<lambda>r. take d (drop (r * d) (data a))) [0..<prod_list (butlast (shape a))])"

definition softmax_row :: "real list \<Rightarrow> real list" where
  "softmax_row xs = map (\<lambda>x. exp x / sum_list (map exp xs)) xs"

definition mx_softmax :: "real mx_array \<Rightarrow> error + real mx_array" where
  \<comment> \<open>\<^verbatim>\<open>mx.softmax(a, axis=-1)\<close>\<close>
  "mx_softmax a =
     (if shape a = [] then Inl (ValueError ''[softmax] Invalid axis for array with 0 dimensions.'')
      else Inr \<lparr> shape = shape a, data = concat (map softmax_row (rows a)) \<rparr>)"

text \<open>\<^verbatim>\<open>nn.Linear.__call__\<close>: \<^verbatim>\<open>x @ weight.T\<close>, plus the bias when there is one.\<close>

definition dot :: "real list \<Rightarrow> real list \<Rightarrow> real" where
  "dot xs ys = (\<Sum>(x, y) \<leftarrow> zip xs ys. x * y)"

definition Linear_call :: "Linear \<Rightarrow> real mx_array \<Rightarrow> error + real mx_array" where
  "Linear_call lin x =
     (let w = weight lin in
      if length (shape w) \<noteq> 2 \<or> shape x = [] \<or> last (shape x) \<noteq> shape w ! 1
        then Inl (ValueError ''[matmul] Incompatible shapes.'')
      else
        let y = \<lparr> shape = butlast (shape x) @ [shape w ! 0],
                  data = concat (map (\<lambda>r. map (dot r) (rows w)) (rows x)) \<rparr>
        in (case bias lin of None \<Rightarrow> Inr y | Some b \<Rightarrow> mx_add y b))"

text \<open>
  \<^verbatim>\<open>nn.LayerNorm.__call__\<close>: normalise along the last axis with the population
  variance, then \<^verbatim>\<open>weight * x + bias\<close>.
\<close>

definition mean :: "real list \<Rightarrow> real" where
  "mean xs = sum_list xs / real (length xs)"

definition layer_norm_row :: "real \<Rightarrow> real list \<Rightarrow> real list" where
  "layer_norm_row eps xs =
     (let m = mean xs; v = mean (map (\<lambda>x. (x - m)\<^sup>2) xs) in
      map (\<lambda>x. (x - m) / sqrt (v + eps)) xs)"

definition LayerNorm_call :: "LayerNorm \<Rightarrow> real mx_array \<Rightarrow> error + real mx_array" where
  "LayerNorm_call lnorm x =
     (if shape x = [] then Inl (ValueError ''[mean] Invalid axis for array with 0 dimensions.'')
      else
        ebind (mx_multiply (ln_weight lnorm)
                 \<lparr> shape = shape x, data = concat (map (layer_norm_row (ln_eps lnorm)) (rows x)) \<rparr>)
          (\<lambda>y. mx_add y (ln_bias lnorm)))"

definition mx_map :: "('a \<Rightarrow> 'b) \<Rightarrow> 'a mx_array \<Rightarrow> 'b mx_array" where
  "mx_map f a = \<lparr> shape = shape a, data = map f (data a) \<rparr>"

definition py_index :: "'a list \<Rightarrow> nat \<Rightarrow> error + 'a" where
  \<comment> \<open>indexing a Python tuple or list with a non-negative index\<close>
  "py_index xs i = (if i < length xs then Inr (xs ! i) else Inl (IndexError ''index out of range''))"

definition py_last :: "'a list \<Rightarrow> error + 'a" where
  \<comment> \<open>the index \<^verbatim>\<open>[-1]\<close>\<close>
  "py_last xs = (if xs = [] then Inl (IndexError ''index out of range'') else Inr (last xs))"

definition mx_getitem0 :: "'a mx_array \<Rightarrow> error + 'a mx_array" where
  \<comment> \<open>\<^verbatim>\<open>a[0]\<close>: the first block along the leading axis\<close>
  "mx_getitem0 a =
     (case shape a of
        [] \<Rightarrow> Inl (ValueError ''Too many indices for array with 0 dimensions.'')
      | d # ds \<Rightarrow>
          if d = 0 then Inl (IndexError ''index out of range'')
          else Inr \<lparr> shape = ds, data = take (prod_list ds) (data a) \<rparr>)"

definition mx_slice_axis1 :: "'a mx_array \<Rightarrow> nat \<Rightarrow> nat \<Rightarrow> error + 'a mx_array" where
  \<comment> \<open>\<^verbatim>\<open>a[:, lo:hi]\<close> for \<open>0 \<le> lo\<close>, \<open>0 \<le> hi\<close>; a slice clips to the axis\<close>
  "mx_slice_axis1 a lo hi =
     (case shape a of
        d0 # d1 # ds \<Rightarrow>
          let lo' = min lo d1; hi' = max lo' (min hi d1); inner = prod_list ds in
          Inr \<lparr> shape = d0 # (hi' - lo') # ds,
                data = concat (map (\<lambda>blk. take ((hi' - lo') * inner)
                                             (drop (blk * d1 * inner + lo' * inner) (data a)))
                                   [0..<d0]) \<rparr>
      | _ \<Rightarrow> Inl (ValueError ''Too many indices for array.''))"

section \<open>M2M100SinusoidalPositionalEmbedding\<close>

text \<open>
  The library module \<^verbatim>\<open>nn.SinusoidalPositionalEncoding(dims)\<close> with its defaults
  (\<^verbatim>\<open>min_freq=0.0001\<close>, \<^verbatim>\<open>max_freq=1\<close>, \<^verbatim>\<open>scale=None\<close>, \<^verbatim>\<open>cos_first=False\<close>,
  \<^verbatim>\<open>full_turns=False\<close>).  Its constructor computes \<open>dims // 2\<close> frequencies, spaced
  geometrically from \<open>max_freq\<close> down to \<open>min_freq\<close>, and the scale
  \<open>(2 / dims) ** 0.5\<close>.  Its call multiplies every \<^emph>\<open>element\<close> of its argument by the
  frequencies and returns the sines followed by the cosines along a new last axis:
  \<^verbatim>\<open>y = x[..., None] * self._sigmas; concatenate([sin(y), cos(y)], axis=-1) * scale\<close>.
  For \<open>dims // 2 = 1\<close> the library divides by zero in floating point (a NaN); HOL's
  \<open>x / 0 = 0\<close> stands there instead.  For a negative \<open>dims\<close> Python's scale is a complex
  number, which the real field \<open>pe_scale\<close> does not represent.  No theorem below uses
  such a module.
\<close>

record SinusoidalPositionalEncoding =
  sigmas :: "real list"
  pe_scale :: real
  cos_first :: bool

definition nn_SinusoidalPositionalEncoding :: "int \<Rightarrow> error + SinusoidalPositionalEncoding" where
  "nn_SinusoidalPositionalEncoding dims =
     (if dims = 0 then Inl (ZeroDivisionError ''division by zero'')
      else
        let half = dims div 2; min_freq = ln (1 / 10000); max_freq = ln 1 in
        Inr \<lparr> sigmas = map (\<lambda>i. exp ((1 - real i / real_of_int (half - 1)) * (max_freq - min_freq)
                                         + min_freq))
                            [0..<nat half],
              pe_scale = sqrt (2 / real_of_int dims),
              cos_first = False \<rparr>)"

definition encode_value :: "SinusoidalPositionalEncoding \<Rightarrow> int \<Rightarrow> real list" where
  \<comment> \<open>what one element \<open>v\<close> of the argument becomes along the new last axis\<close>
  "encode_value enc v =
     (let y = map (\<lambda>s. real_of_int v * s) (sigmas enc) in
      map (\<lambda>t. t * pe_scale enc)
          (if cos_first enc then map cos y @ map sin y else map sin y @ map cos y))"

definition SinusoidalPositionalEncoding_call ::
  "SinusoidalPositionalEncoding \<Rightarrow> int mx_array \<Rightarrow> real mx_array" where
  "SinusoidalPositionalEncoding_call enc x =
     \<lparr> shape = shape x @ [2 * length (sigmas enc)],
       data = concat (map (encode_value enc) (data x)) \<rparr>"

record M2M100SinusoidalPositionalEmbedding =
  pe_offset :: int
  embedding_dim :: int
  padding_idx :: "int option"
  num_positions :: int
  weights :: SinusoidalPositionalEncoding

definition M2M100SinusoidalPositionalEmbedding_init ::
  "int \<Rightarrow> int \<Rightarrow> int option \<Rightarrow> error + M2M100SinusoidalPositionalEmbedding" where
  "M2M100SinusoidalPositionalEmbedding_init num_positions' embedding_dim' padding_idx' =
     ebind (nn_SinusoidalPositionalEncoding embedding_dim')
       (\<lambda>w. Inr \<lparr> pe_offset = 2,
                   embedding_dim = embedding_dim',
                   padding_idx = padding_idx',
                   num_positions = num_positions',
                   weights = w \<rparr>)"

text \<open>
  \<^verbatim>\<open>__call__(self, input_ids, past_key_values_length=0)\<close> returns
  \<^verbatim>\<open>self.weights(input_ids)\<close>.  The second argument is not used; the decoder passes
  its cache there, so its type is left open.
\<close>

definition M2M100SinusoidalPositionalEmbedding_call ::
  "M2M100SinusoidalPositionalEmbedding \<Rightarrow> int mx_array \<Rightarrow> 'p \<Rightarrow> real mx_array" where
  "M2M100SinusoidalPositionalEmbedding_call self input_ids past_key_values_length =
     SinusoidalPositionalEncoding_call (weights self) input_ids"

section \<open>M2M100Attention: construction\<close>

record M2M100Attention =
  args :: "ModelArgs option"
  embed_dim :: int
  num_heads :: int
  attn_dropout :: real
  head_dim :: int
  scaling :: real
  is_decoder :: bool
  is_causal :: bool
  k_proj :: Linear
  v_proj :: Linear
  q_proj :: Linear
  out_proj :: Linear

text \<open>
  \<^verbatim>\<open>M2M100Attention.__init__\<close>.  The four \<^verbatim>\<open>nn.Linear(embed_dim, embed_dim, bias=bias)\<close>
  modules are passed in as \<open>projs = (k, v, q, out)\<close>, holding the weights the checkpoint
  loads into them.  \<^verbatim>\<open>embed_dim // num_heads\<close> is Python's floor division, which is
  \<^term>\<open>(div)\<close> on \<^typ>\<open>int\<close>, and raises for a zero divisor;
  \<^verbatim>\<open>self.head_dim**-0.5\<close> raises for a zero base.  For a negative \<open>head_dim\<close>
  Python's power is a complex number, which the real field \<open>scaling\<close> does not
  represent; no method reads \<open>scaling\<close>.
\<close>

definition M2M100Attention_init ::
  "int \<Rightarrow> int \<Rightarrow> real \<Rightarrow> bool \<Rightarrow> bool \<Rightarrow> bool \<Rightarrow> ModelArgs option \<Rightarrow>
   Linear \<times> Linear \<times> Linear \<times> Linear \<Rightarrow> error + M2M100Attention" where
  "M2M100Attention_init embed_dim' num_heads' dropout' is_decoder' bias' is_causal' args' projs =
     (if num_heads' = 0 then Inl (ZeroDivisionError ''integer division or modulo by zero'')
      else
        let head_dim' = embed_dim' div num_heads' in
        if head_dim' = 0 then Inl (ZeroDivisionError ''0.0 cannot be raised to a negative power'')
        else
          (case projs of (k, v, q, out) \<Rightarrow>
            Inr \<lparr> args = args',
                  embed_dim = embed_dim',
                  num_heads = num_heads',
                  attn_dropout = dropout',
                  head_dim = head_dim',
                  scaling = real_of_int head_dim' powr (- (1 / 2)),
                  is_decoder = is_decoder',
                  is_causal = is_causal',
                  k_proj = k, v_proj = v, q_proj = q, out_proj = out \<rparr>))"

section \<open>M2M100Attention: the forward pass\<close>

definition M2M100Attention_shape ::
  "M2M100Attention \<Rightarrow> real mx_array \<Rightarrow> int \<Rightarrow> nat \<Rightarrow> error + real mx_array" where
  \<comment> \<open>\<^verbatim>\<open>_shape\<close>: \<^verbatim>\<open>tensor.reshape(bsz, seq_len, num_heads, head_dim).transpose(0, 2, 1, 3)\<close>\<close>
  "M2M100Attention_shape self tensor seq_len bsz =
     ebind (mx_reshape tensor [int bsz, seq_len, num_heads self, head_dim self])
       (\<lambda>t. mx_transpose t [0, 2, 1, 3])"

definition project_key_value ::
  "M2M100Attention \<Rightarrow> real mx_array \<Rightarrow> nat \<Rightarrow> error + real mx_array \<times> real mx_array" where
  \<comment> \<open>the pair of statements
      \<^verbatim>\<open>key_states = self._shape(self.k_proj(x), -1, bsz)\<close>,
      \<^verbatim>\<open>value_states = self._shape(self.v_proj(x), -1, bsz)\<close>, which three branches share\<close>
  "project_key_value self x bsz =
     ebind (Linear_call (k_proj self) x) (\<lambda>k.
     ebind (M2M100Attention_shape self k (- 1) bsz) (\<lambda>key_states.
     ebind (Linear_call (v_proj self) x) (\<lambda>v.
     ebind (M2M100Attention_shape self v (- 1) bsz) (\<lambda>value_states.
     Inr (key_states, value_states)))))"

text \<open>
  Lines 112 to 125: the four branches that choose the key and value states.  A cache is a
  pair, which Python takes as true in \<^verbatim>\<open>elif past_key_value:\<close>.
\<close>

definition M2M100Attention_key_value ::
  "M2M100Attention \<Rightarrow> real mx_array \<Rightarrow> real mx_array option \<Rightarrow>
   (real mx_array \<times> real mx_array) option \<Rightarrow> nat \<Rightarrow> error + real mx_array \<times> real mx_array" where
  "M2M100Attention_key_value self hidden_states key_value_states past_key_value bsz =
     (case key_value_states of
        Some kv \<Rightarrow>
          (case past_key_value of
             Some (past_key, past_value) \<Rightarrow>
               ebind (py_index (shape past_key) 2) (\<lambda>past_len.
               ebind (py_index (shape kv) 1) (\<lambda>kv_len.
               if past_len = kv_len then Inr (past_key, past_value)
               else project_key_value self kv bsz))
           | None \<Rightarrow> project_key_value self kv bsz)
      | None \<Rightarrow>
          (case past_key_value of
             Some (past_key, past_value) \<Rightarrow>
               ebind (project_key_value self hidden_states bsz) (\<lambda>(key_states, value_states).
               ebind (mx_concatenate past_key key_states 2) (\<lambda>key_states'.
               ebind (mx_concatenate past_value value_states 2) (\<lambda>value_states'.
               Inr (key_states', value_states'))))
           | None \<Rightarrow> project_key_value self hidden_states bsz))"

text \<open>
  Lines 105 to 137: up to the attention scores.  The result carries the local variables
  the rest of the call reads: \<open>(bsz, tgt_len, src_len, attn_weights, value_states)\<close>.
  The assignment of line 128 is kept as the binding \<open>past_key_value'\<close>; nothing reads it.
\<close>

definition M2M100Attention_scores ::
  "M2M100Attention \<Rightarrow> real mx_array \<Rightarrow> real mx_array option \<Rightarrow>
   (real mx_array \<times> real mx_array) option \<Rightarrow>
   error + nat \<times> nat \<times> nat \<times> real mx_array \<times> real mx_array" where
  "M2M100Attention_scores self hidden_states key_value_states past_key_value =
     (if length (shape hidden_states) \<noteq> 3
        then Inl (ValueError ''wrong number of values to unpack (expected 3)'')
      else
        let bsz = shape hidden_states ! 0; tgt_len = shape hidden_states ! 1 in
        ebind (Linear_call (q_proj self) hidden_states) (\<lambda>query_states.
        ebind (M2M100Attention_key_value self hidden_states key_value_states past_key_value bsz)
          (\<lambda>(key_states, value_states).
        let past_key_value' =
              (if is_decoder self then Some (key_states, value_states) else past_key_value);
            proj_shape = [int bsz * num_heads self, int tgt_len, head_dim self]
        in
        ebind (M2M100Attention_shape self query_states (int tgt_len) bsz) (\<lambda>q.
        ebind (mx_reshape q proj_shape) (\<lambda>query_states'.
        ebind (mx_reshape key_states proj_shape) (\<lambda>key_states'.
        ebind (mx_reshape value_states proj_shape) (\<lambda>value_states'.
        let src_len = shape key_states' ! 1 in
        ebind (mx_transpose key_states' [0, 2, 1]) (\<lambda>key_t.
        ebind (mx_matmul query_states' key_t) (\<lambda>attn_weights.
        Inr (bsz, tgt_len, src_len, attn_weights, value_states'))))))))))"

definition attn_weights_message :: "int list \<Rightarrow> int list \<Rightarrow> string" where
  "attn_weights_message expected actual =
     ''Attention weights should be of size '' @ str_tuple expected
       @ '', but is '' @ str_tuple actual"

definition attn_mask_message :: "int list \<Rightarrow> int list \<Rightarrow> string" where
  "attn_mask_message expected actual =
     ''Attention mask should be of size '' @ str_tuple expected
       @ '', but is '' @ str_tuple actual"

text \<open>
  Lines 139 to 169.  Line 146 reads \<^verbatim>\<open>attention_mask.shape\<close> for a \<^verbatim>\<open>print\<close>
  before the test \<^verbatim>\<open>attention_mask is not None\<close>.  The value returned is
  \<^verbatim>\<open>attn_output\<close> alone.  The property \<^verbatim>\<open>shape\<close> is taken to be a tuple, as the
  library documents it, so that the comparisons with the tuples of lines 139 and 149 are
  comparisons of dimensions.  The parameter \<^verbatim>\<open>layer_head_mask\<close> is never read.
\<close>

definition M2M100Attention_call ::
  "M2M100Attention \<Rightarrow> real mx_array \<Rightarrow> real mx_array option \<Rightarrow>
   (real mx_array \<times> real mx_array) option \<Rightarrow> real mx_array option \<Rightarrow> real mx_array option \<Rightarrow>
   error + real mx_array" where
  "M2M100Attention_call self hidden_states key_value_states past_key_value attention_mask
       layer_head_mask =
     ebind (M2M100Attention_scores self hidden_states key_value_states past_key_value)
       (\<lambda>(bsz, tgt_len, src_len, attn_weights, value_states).
     let expected = [int bsz * num_heads self, int tgt_len, int src_len] in
     if map int (shape attn_weights) \<noteq> expected
       then Inl (ValueError (attn_weights_message expected (map int (shape attn_weights))))
     else
       ebind (case attention_mask of
                None \<Rightarrow> Inl (AttributeError ''NoneType object has no attribute shape'')
              | Some msk \<Rightarrow> Inr (shape msk)) (\<lambda>printed.
       ebind (case attention_mask of
                None \<Rightarrow> Inr attn_weights
              | Some msk \<Rightarrow>
                  if shape msk \<noteq> [bsz, 1, tgt_len, src_len]
                    then Inl (ValueError (attn_mask_message
                                (map int [bsz, 1, tgt_len, src_len]) (map int (shape msk))))
                  else
                    ebind (mx_reshape attn_weights
                             [int bsz, num_heads self, int tgt_len, int src_len]) (\<lambda>w4.
                    ebind (mx_add w4 msk) (\<lambda>masked.
                    mx_reshape masked expected))) (\<lambda>attn_weights'.
       ebind (mx_softmax attn_weights') (\<lambda>attn_probs.
       ebind (mx_matmul attn_probs value_states) (\<lambda>attn_outputs.
       ebind (mx_reshape attn_outputs [int bsz, num_heads self, int tgt_len, head_dim self])
         (\<lambda>o4.
       ebind (mx_transpose o4 [0, 2, 1, 3]) (\<lambda>o4'.
       ebind (mx_reshape o4' [int bsz, int tgt_len, embed_dim self]) (\<lambda>attn_output.
       Linear_call (out_proj self) attn_output))))))))"

section \<open>Encoder and decoder layers: construction\<close>

record M2M100EncoderLayer =
  enc_embed_dim :: int
  enc_self_attn :: M2M100Attention
  enc_self_attn_layer_norm :: LayerNorm
  enc_activation_fn :: "(real \<Rightarrow> real) option"
  enc_fc1 :: Linear
  enc_fc2 :: Linear
  enc_final_layer_norm :: LayerNorm

record M2M100DecoderLayer =
  dec_embed_dim :: int
  self_attn :: M2M100Attention
  self_attn_layer_norm :: LayerNorm
  encoder_attn :: M2M100Attention
  encoder_attn_layer_norm :: LayerNorm
  activation_fn :: "(real \<Rightarrow> real) option"
  fc1 :: Linear
  fc2 :: Linear
  final_layer_norm :: LayerNorm

text \<open>
  The parameters of a layer as the checkpoint provides them: the projections of each
  attention module, the layer norms and the two feed-forward maps.
\<close>

record EncoderLayerWeights =
  w_enc_self_attn :: "Linear \<times> Linear \<times> Linear \<times> Linear"
  w_enc_self_attn_layer_norm :: LayerNorm
  w_enc_fc1 :: Linear
  w_enc_fc2 :: Linear
  w_enc_final_layer_norm :: LayerNorm

record DecoderLayerWeights =
  w_self_attn :: "Linear \<times> Linear \<times> Linear \<times> Linear"
  w_self_attn_layer_norm :: LayerNorm
  w_encoder_attn :: "Linear \<times> Linear \<times> Linear \<times> Linear"
  w_encoder_attn_layer_norm :: LayerNorm
  w_fc1 :: Linear
  w_fc2 :: Linear
  w_final_layer_norm :: LayerNorm

definition relu :: "real \<Rightarrow> real" where
  "relu x = max x 0"

text \<open>
  The activation is chosen by name; with any other name the attribute is never set
  (\<open>None\<close>), and the layer's call fails when it reads it.  \<open>gelu\<close> stands for
  the library's \<^verbatim>\<open>nn.GELU()\<close>.
\<close>

definition select_activation :: "(real \<Rightarrow> real) \<Rightarrow> string \<Rightarrow> (real \<Rightarrow> real) option" where
  "select_activation gelu name =
     (if name = ''gelu'' then Some gelu
      else if name = ''relu'' then Some relu
      else None)"

definition M2M100EncoderLayer_init ::
  "(real \<Rightarrow> real) \<Rightarrow> ModelArgs \<Rightarrow> EncoderLayerWeights \<Rightarrow> error + M2M100EncoderLayer" where
  "M2M100EncoderLayer_init gelu config w =
     ebind (M2M100Attention_init (d_model config) (encoder_attention_heads config)
              (attention_dropout config) False True False (Some config) (w_enc_self_attn w))
       (\<lambda>attn.
          Inr \<lparr> enc_embed_dim = d_model config,
                enc_self_attn = attn,
                enc_self_attn_layer_norm = w_enc_self_attn_layer_norm w,
                enc_activation_fn = select_activation gelu (activation_function config),
                enc_fc1 = w_enc_fc1 w,
                enc_fc2 = w_enc_fc2 w,
                enc_final_layer_norm = w_enc_final_layer_norm w \<rparr>)"

definition M2M100DecoderLayer_init ::
  "(real \<Rightarrow> real) \<Rightarrow> ModelArgs \<Rightarrow> DecoderLayerWeights \<Rightarrow> error + M2M100DecoderLayer" where
  "M2M100DecoderLayer_init gelu config w =
     ebind (M2M100Attention_init (d_model config) (decoder_attention_heads config)
              (attention_dropout config) True True True (Some config) (w_self_attn w))
       (\<lambda>sa.
     ebind (M2M100Attention_init (d_model config) (decoder_attention_heads config)
              (attention_dropout config) True True False (Some config) (w_encoder_attn w))
       (\<lambda>ea.
          Inr \<lparr> dec_embed_dim = d_model config,
                self_attn = sa,
                self_attn_layer_norm = w_self_attn_layer_norm w,
                encoder_attn = ea,
                encoder_attn_layer_norm = w_encoder_attn_layer_norm w,
                activation_fn = select_activation gelu (activation_function config),
                fc1 = w_fc1 w,
                fc2 = w_fc2 w,
                final_layer_norm = w_final_layer_norm w \<rparr>))"

section \<open>M2M100DecoderLayer: the forward pass\<close>

text \<open>
  Both attention modules are called with \<^verbatim>\<open>past_key_value=None\<close>, and the value
  returned is \<^verbatim>\<open>hidden_states\<close> alone.  Python evaluates \<^verbatim>\<open>self.activation_fn\<close>
  before the argument \<^verbatim>\<open>self.fc1(hidden_states)\<close>.
\<close>

definition M2M100DecoderLayer_call ::
  "M2M100DecoderLayer \<Rightarrow> real mx_array \<Rightarrow> real mx_array option \<Rightarrow> real mx_array option \<Rightarrow>
   real mx_array option \<Rightarrow> error + real mx_array" where
  "M2M100DecoderLayer_call self hidden_states encoder_hidden_states attention_mask
       encoder_attention_mask =
     (let residual = hidden_states in
      ebind (LayerNorm_call (self_attn_layer_norm self) hidden_states) (\<lambda>normed.
      ebind (M2M100Attention_call (self_attn self) normed None None attention_mask None)
        (\<lambda>attended.
      ebind (mx_add attended residual) (\<lambda>hidden_states1.
      ebind (case encoder_hidden_states of
               None \<Rightarrow> Inr hidden_states1
             | Some enc \<Rightarrow>
                 (let residual1 = hidden_states1 in
                  ebind (LayerNorm_call (encoder_attn_layer_norm self) hidden_states1)
                    (\<lambda>normed1.
                  ebind (M2M100Attention_call (encoder_attn self) normed1 (Some enc) None
                           encoder_attention_mask None) (\<lambda>attended1.
                  mx_add attended1 residual1)))) (\<lambda>hidden_states2.
      let residual2 = hidden_states2 in
      ebind (LayerNorm_call (final_layer_norm self) hidden_states2) (\<lambda>normed2.
      ebind (case activation_fn self of
               None \<Rightarrow> Inl (AttributeError ''M2M100DecoderLayer has no attribute activation_fn'')
             | Some f \<Rightarrow> Inr f) (\<lambda>act.
      ebind (Linear_call (fc1 self) normed2) (\<lambda>h1.
      ebind (Linear_call (fc2 self) (mx_map act h1)) (\<lambda>h2.
      mx_add h2 residual2)))))))))"

section \<open>M2M100Decoder: the forward pass\<close>

record Embedding =
  emb_weight :: "real mx_array"

definition table_row :: "real mx_array \<Rightarrow> int \<Rightarrow> real list" where
  \<comment> \<open>row \<open>i\<close> of a table; a negative index counts from the end.  The library makes no
      bounds check: what an index outside the table reads is not specified.\<close>
  "table_row w i =
     (let v = int (hd (shape w)); c = prod_list (tl (shape w));
          j = (if i < 0 then i + v else i)
      in if 0 \<le> j \<and> j < v then take c (drop (nat j * c) (data w))
         else replicate c undefined)"

definition Embedding_call :: "Embedding \<Rightarrow> int mx_array \<Rightarrow> error + real mx_array" where
  \<comment> \<open>\<^verbatim>\<open>nn.Embedding.__call__\<close>: \<^verbatim>\<open>weight[x]\<close>, one row per id, with no check of
      the ids\<close>
  "Embedding_call emb x =
     (let w = emb_weight emb in
      if shape w = [] then Inl (ValueError ''Too many indices for array with 0 dimensions.'')
      else Inr \<lparr> shape = shape x @ tl (shape w),
                 data = concat (map (table_row w) (data x)) \<rparr>)"

record M2M100Decoder =
  dec_padding_idx :: int
  max_target_positions :: int
  embed_scale :: real
  embed_tokens :: "Embedding option"
  embed_positions :: M2M100SinusoidalPositionalEmbedding
  layers :: "M2M100DecoderLayer list"
  layer_norm :: LayerNorm

text \<open>
  An \<^verbatim>\<open>mx.array\<close> is not a torch tensor.  Its attribute \<^verbatim>\<open>size\<close> is a property
  holding the number of elements, an \<^verbatim>\<open>int\<close>, so \<^verbatim>\<open>input_ids.size()\<close> calls an
  \<^verbatim>\<open>int\<close>, and Python raises \<^verbatim>\<open>TypeError\<close>.  The array has no method that takes
  a shape under the name \<^verbatim>\<open>view\<close> either.
\<close>

definition py_call_int :: "nat \<Rightarrow> error + 'r" where
  "py_call_int n = Inl (TypeError ''int object is not callable'')"

definition mx_view :: "'a mx_array \<Rightarrow> int list \<Rightarrow> error + 'a mx_array" where
  "mx_view a dims = Inl (AttributeError ''array object has no attribute view'')"

text \<open>Lines 342 to 354: everything before the loop over the layers.\<close>

definition M2M100Decoder_inputs ::
  "M2M100Decoder \<Rightarrow> int mx_array \<Rightarrow> real mx_array option \<Rightarrow>
   (real mx_array list list) option \<Rightarrow> error + real mx_array \<times> real mx_array option" where
  "M2M100Decoder_inputs self input_ids attention_mask past_key_values =
     ebind (py_call_int (mx_size input_ids)) (\<lambda>input_shape.
     ebind (py_last input_shape) (\<lambda>seq_len.
     ebind (mx_view input_ids [- 1, seq_len]) (\<lambda>input_ids'.
     ebind (case past_key_values of
              None \<Rightarrow> Inr 0
            | Some pkv \<Rightarrow>
                ebind (py_index pkv 0) (\<lambda>layer0.
                ebind (py_index layer0 0) (\<lambda>key0.
                py_index (shape key0) 2))) (\<lambda>past_key_values_length.
     ebind (case embed_tokens self of
              None \<Rightarrow> Inl (TypeError ''NoneType object is not callable'')
            | Some emb \<Rightarrow> Embedding_call emb input_ids') (\<lambda>embedded.
     let inputs_embeds = mx_scale embedded (embed_scale self);
         embed_pos = M2M100SinusoidalPositionalEmbedding_call (embed_positions self) input_ids'
                       past_key_values
     in
     ebind (mx_add inputs_embeds embed_pos) (\<lambda>hidden_states.
     ebind (case attention_mask of
              None \<Rightarrow> Inr None
            | Some msk \<Rightarrow> ebind (mx_view msk [- 1, 1, 1, seq_len]) (\<lambda>m4. Inr (Some m4)))
       (\<lambda>attention_mask'.
     Inr (hidden_states, attention_mask'))))))))"

text \<open>Lines 356 to 358: each layer's result is indexed with \<^verbatim>\<open>[0]\<close>.\<close>

fun M2M100Decoder_layers ::
  "M2M100DecoderLayer list \<Rightarrow> real mx_array \<Rightarrow> real mx_array option \<Rightarrow> real mx_array option \<Rightarrow>
   real mx_array option \<Rightarrow> error + real mx_array" where
  "M2M100Decoder_layers [] hidden_states enc am eam = Inr hidden_states"
| "M2M100Decoder_layers (layer # rest) hidden_states enc am eam =
     ebind (M2M100DecoderLayer_call layer hidden_states enc am eam) (\<lambda>layer_output.
     ebind (mx_getitem0 layer_output) (\<lambda>hidden_states'.
     M2M100Decoder_layers rest hidden_states' enc am eam))"

definition M2M100Decoder_call ::
  "M2M100Decoder \<Rightarrow> int mx_array \<Rightarrow> real mx_array option \<Rightarrow> real mx_array option \<Rightarrow>
   real mx_array option \<Rightarrow> (real mx_array list list) option \<Rightarrow> error + real mx_array" where
  "M2M100Decoder_call self input_ids encoder_hidden_states attention_mask encoder_attention_mask
       past_key_values =
     ebind (M2M100Decoder_inputs self input_ids attention_mask past_key_values)
       (\<lambda>(hidden_states, attention_mask').
     ebind (M2M100Decoder_layers (layers self) hidden_states encoder_hidden_states attention_mask'
              encoder_attention_mask) (\<lambda>hidden_states'.
     LayerNorm_call (layer_norm self) hidden_states'))"

section \<open>The greedy decode loop of the test\<close>

text \<open>
  \<^verbatim>\<open>forward_mlx\<close> of \<^verbatim>\<open>test.py\<close>.  The test imports its model from a module that is
  not part of the sources, so the three methods it calls are parameters: \<open>encode\<close> is the
  result of \<^verbatim>\<open>model.encode(inputs["input_ids"], inputs["attention_mask"])\<close>,
  \<open>decode ids mask enc\<close> stands for
  \<^verbatim>\<open>model.decode(ids, mask, enc, inputs["attention_mask"], None)\<close>, and \<open>lm_head\<close>
  returns the logits as \<open>[batch][position][vocabulary]\<close>.  The two-dimensional arrays of
  ids and of mask entries are lists of rows.
\<close>

definition last_position :: "'a list list \<Rightarrow> error + 'a list" where
  \<comment> \<open>the index \<^verbatim>\<open>[:, -1, :]\<close>, row by row\<close>
  "last_position logits =
     (if list_ex (\<lambda>positions. positions = []) logits
        then Inl (IndexError ''index out of range'')
      else Inr (map last logits))"

fun max_list :: "real list \<Rightarrow> real" where
  "max_list [] = 0"
| "max_list [x] = x"
| "max_list (x # y # ys) = max x (max_list (y # ys))"

definition argmax_row :: "real list \<Rightarrow> nat" where
  \<comment> \<open>the first index that holds the maximum\<close>
  "argmax_row xs = length (takeWhile (\<lambda>x. x \<noteq> max_list xs) xs)"

definition mx_argmax :: "real list list \<Rightarrow> error + int list" where
  \<comment> \<open>\<^verbatim>\<open>mx.argmax(logits, axis=-1)\<close>\<close>
  "mx_argmax logits =
     (if list_ex (\<lambda>row. row = []) logits
        then Inl (ValueError ''[argmax] Cannot reduce an axis of size zero.'')
      else Inr (map (\<lambda>row. int (argmax_row row)) logits))"

definition concatenate_axis1 :: "'a list list \<Rightarrow> 'a list list \<Rightarrow> error + 'a list list" where
  \<comment> \<open>\<^verbatim>\<open>mx.concatenate([a, b], axis=1)\<close>: the arrays must have as many rows\<close>
  "concatenate_axis1 a b =
     (if length a \<noteq> length b
        then Inl (ValueError ''[concatenate] All the input array dimensions must match.'')
      else Inr (map (\<lambda>(r, t). r @ t) (zip a b)))"

definition forward_mlx_step ::
  "(int list list \<Rightarrow> real list list \<Rightarrow> 'e \<Rightarrow> error + 'h) \<Rightarrow> ('h \<Rightarrow> error + real list list list) \<Rightarrow>
   'e \<Rightarrow> nat \<Rightarrow> int list list \<times> real list list \<Rightarrow> error + int list list \<times> real list list" where
  "forward_mlx_step decode lm_head encoder_tokens bsz st =
     (case st of (decoder_input_ids, decoder_input_mask) \<Rightarrow>
        ebind (decode decoder_input_ids decoder_input_mask encoder_tokens) (\<lambda>outputs.
        ebind (lm_head outputs) (\<lambda>all_logits.
        ebind (last_position all_logits) (\<lambda>logits.
        ebind (mx_argmax logits) (\<lambda>next_token.
        ebind (concatenate_axis1 decoder_input_ids (map (\<lambda>t. [t]) next_token))
          (\<lambda>decoder_input_ids'.
        ebind (concatenate_axis1 decoder_input_mask (replicate bsz [1]))
          (\<lambda>decoder_input_mask'.
        Inr (decoder_input_ids', decoder_input_mask'))))))))"

fun forward_mlx_loop ::
  "(int list list \<Rightarrow> real list list \<Rightarrow> 'e \<Rightarrow> error + 'h) \<Rightarrow> ('h \<Rightarrow> error + real list list list) \<Rightarrow>
   'e \<Rightarrow> nat \<Rightarrow> nat \<Rightarrow> int list list \<times> real list list \<Rightarrow>
   error + int list list \<times> real list list" where
  "forward_mlx_loop decode lm_head encoder_tokens bsz 0 st = Inr st"
| "forward_mlx_loop decode lm_head encoder_tokens bsz (Suc n) st =
     ebind (forward_mlx_step decode lm_head encoder_tokens bsz st)
       (forward_mlx_loop decode lm_head encoder_tokens bsz n)"

definition forward_mlx ::
  "(error + 'e) \<Rightarrow> (int list list \<Rightarrow> real list list \<Rightarrow> 'e \<Rightarrow> error + 'h) \<Rightarrow>
   ('h \<Rightarrow> error + real list list list) \<Rightarrow> int \<Rightarrow> int \<Rightarrow> nat \<Rightarrow> error + int list list" where
  "forward_mlx encode decode lm_head eos_token_id' lang_id bsz =
     (let decoder_input_ids = replicate 2 [eos_token_id', lang_id];
          decoder_input_mask = replicate 2 [1, 1]
      in
      ebind encode (\<lambda>encoder_tokens.
      ebind (forward_mlx_loop decode lm_head encoder_tokens bsz 10
               (decoder_input_ids, decoder_input_mask)) (\<lambda>(ids, msk). Inr ids)))"

section \<open>Small concrete modules\<close>

text \<open>Modules with explicit weights, for evaluating the code on concrete inputs.\<close>

definition const_linear :: "nat \<Rightarrow> nat \<Rightarrow> real \<Rightarrow> Linear" where
  \<comment> \<open>\<open>nn.Linear(n_in, n_out)\<close> with every weight \<open>c\<close> and a zero bias\<close>
  "const_linear n_in n_out c =
     \<lparr> weight = \<lparr> shape = [n_out, n_in], data = replicate (n_out * n_in) c \<rparr>,
       bias = Some \<lparr> shape = [n_out], data = replicate n_out 0 \<rparr> \<rparr>"

definition const_projections :: "nat \<Rightarrow> Linear \<times> Linear \<times> Linear \<times> Linear" where
  "const_projections n =
     (const_linear n n 1, const_linear n n 1, const_linear n n 1, const_linear n n 1)"

definition plain_layer_norm :: "nat \<Rightarrow> LayerNorm" where
  \<comment> \<open>\<open>nn.LayerNorm(n)\<close> as constructed: unit weight, zero bias, \<open>eps = 1e-5\<close>\<close>
  "plain_layer_norm n =
     \<lparr> ln_eps = 1 / 100000,
       ln_weight = \<lparr> shape = [n], data = replicate n 1 \<rparr>,
       ln_bias = \<lparr> shape = [n], data = replicate n 0 \<rparr> \<rparr>"

definition example_config :: "int \<Rightarrow> int \<Rightarrow> ModelArgs" where
  \<comment> \<open>a small configuration with hidden size \<open>d\<close> and \<open>h\<close> heads on both sides\<close>
  "example_config d h =
     \<lparr> vocab_size = 50, max_position_embeddings = 1024,
       encoder_layers = 1, encoder_ffn_dim = 2, encoder_attention_heads = h,
       decoder_layers = 1, decoder_ffn_dim = 2, decoder_attention_heads = h,
       encoder_layerdrop = 0, decoder_layerdrop = 0,
       use_cache = True, is_encoder_decoder = True, activation_function = ''relu'',
       d_model = d, dropout = 0, attention_dropout = 0, activation_dropout = 0,
       init_std = 1 / 50, decoder_start_token_id = 2, scale_embedding = True,
       pad_token_id = 1, bos_token_id = 0, eos_token_id = 2, num_hidden_layers = 1 \<rparr>"

definition example_encoder_weights :: "nat \<Rightarrow> EncoderLayerWeights" where
  "example_encoder_weights n =
     \<lparr> w_enc_self_attn = const_projections n,
       w_enc_self_attn_layer_norm = plain_layer_norm n,
       w_enc_fc1 = const_linear n 2 1,
       w_enc_fc2 = const_linear 2 n 1,
       w_enc_final_layer_norm = plain_layer_norm n \<rparr>"

definition example_decoder_weights :: "nat \<Rightarrow> DecoderLayerWeights" where
  "example_decoder_weights n =
     \<lparr> w_self_attn = const_projections n,
       w_self_attn_layer_norm = plain_layer_norm n,
       w_encoder_attn = const_projections n,
       w_encoder_attn_layer_norm = plain_layer_norm n,
       w_fc1 = const_linear n 2 1,
       w_fc2 = const_linear 2 n 1,
       w_final_layer_norm = plain_layer_norm n \<rparr>"

definition example_positions :: M2M100SinusoidalPositionalEmbedding where
  \<comment> \<open>what \<open>M2M100SinusoidalPositionalEmbedding(1024, 4)\<close> constructs\<close>
  "example_positions =
     \<lparr> pe_offset = 2, embedding_dim = 4, padding_idx = None, num_positions = 1024,
       weights = \<lparr> sigmas = [1, 1 / 10000], pe_scale = sqrt (1 / 2), cos_first = False \<rparr> \<rparr>"

definition example_attention :: "bool \<Rightarrow> bool \<Rightarrow> M2M100Attention" where
  \<comment> \<open>one head of dimension one, every projection the identity\<close>
  "example_attention dec causal =
     \<lparr> args = Some (example_config 1 1), embed_dim = 1, num_heads = 1, attn_dropout = 0,
       head_dim = 1, scaling = 1, is_decoder = dec, is_causal = causal,
       k_proj = const_linear 1 1 1, v_proj = const_linear 1 1 1,
       q_proj = const_linear 1 1 1, out_proj = const_linear 1 1 1 \<rparr>"

definition example_decoder_layer :: M2M100DecoderLayer where
  \<comment> \<open>what \<open>M2M100DecoderLayer(example_config 1 1)\<close> constructs from
      \<open>example_decoder_weights 1\<close>\<close>
  "example_decoder_layer =
     \<lparr> dec_embed_dim = 1,
       self_attn = example_attention True True,
       self_attn_layer_norm = plain_layer_norm 1,
       encoder_attn = example_attention True False,
       encoder_attn_layer_norm = plain_layer_norm 1,
       activation_fn = Some relu,
       fc1 = const_linear 1 2 1,
       fc2 = const_linear 2 1 1,
       final_layer_norm = plain_layer_norm 1 \<rparr>"


definition example_decode :: "int list list \<Rightarrow> real list list \<Rightarrow> unit \<Rightarrow> error + int list list" where
  \<comment> \<open>a decoder whose hidden states are the ids themselves\<close>
  "example_decode ids msk enc = Inr ids"

definition example_lm_head :: "int list list \<Rightarrow> error + real list list list" where
  \<comment> \<open>a head over three vocabulary ids that always scores id 1 highest\<close>
  "example_lm_head hidden = Inr (map (\<lambda>row. map (\<lambda>t. [0, 5, 1]) row) hidden)"

section \<open>Errors raised inside the library\<close>


section \<open>Theorems\<close>

subsection \<open>Sequencing of calls that may raise\<close>

lemma ebind_Inr_iff: "ebind m f = Inr y \<longleftrightarrow> (\<exists>x. m = Inr x \<and> f x = Inr y)"
  by (cases m) auto

lemma ebind_assoc: "ebind (ebind m f) g = ebind m (\<lambda>x. ebind (f x) g)"
  by (cases m) auto

subsection \<open>Head dimension\<close>

lemma M2M100Attention_init_ok:
  assumes "nh \<noteq> 0" and "ed div nh \<noteq> 0"
  shows "\<exists>a. M2M100Attention_init ed nh dr isd b isc ar projs = Inr a
             \<and> embed_dim a = ed \<and> num_heads a = nh \<and> head_dim a = ed div nh"
  using assms by (cases projs) (simp add: M2M100Attention_init_def Let_def)

lemma floor_quotient_nonzero:
  fixes d h :: int
  assumes "0 < h" and "h \<le> d"
  shows "h \<noteq> 0" and "d div h \<noteq> 0"
proof -
  show "h \<noteq> 0" using assms by simp
  have "h div h \<le> d div h"
    using assms by (intro zdiv_mono1) simp_all
  then show "d div h \<noteq> 0" using assms by simp
qed

lemma product_with_quotient:
  fixes d h :: int
  assumes "h \<noteq> 0"
  shows "d = h * (d div h) \<longleftrightarrow> h dvd d"
proof
  assume "d = h * (d div h)"
  then show "h dvd d" by (metis dvd_triv_left)
next
  assume "h dvd d"
  then show "d = h * (d div h)" by simp
qed

text \<open>
  C6, as the code has it.  \<open>head_dim\<close> is the floor quotient \<open>embed_dim // num_heads\<close>
  in the attention modules of the encoder layer and of the decoder layer, and
  \<open>embed_dim = num_heads * head_dim\<close> holds exactly when the head count divides the hidden
  size.  The constructors make no divisibility check: for every configuration with
  \<open>0 < heads \<le> d_model\<close> on both sides, both layers are constructed without an error.
\<close>

theorem head_dim_is_floor_quotient:
  assumes "0 < encoder_attention_heads config"
      and "encoder_attention_heads config \<le> d_model config"
      and "0 < decoder_attention_heads config"
      and "decoder_attention_heads config \<le> d_model config"
  shows "\<exists>el dl.
           M2M100EncoderLayer_init gelu config we = Inr el
         \<and> M2M100DecoderLayer_init gelu config wd = Inr dl
         \<and> head_dim (enc_self_attn el) = d_model config div encoder_attention_heads config
         \<and> head_dim (self_attn dl) = d_model config div decoder_attention_heads config
         \<and> head_dim (encoder_attn dl) = d_model config div decoder_attention_heads config
         \<and> ((embed_dim (enc_self_attn el)
                = num_heads (enc_self_attn el) * head_dim (enc_self_attn el))
              = (encoder_attention_heads config dvd d_model config))
         \<and> ((embed_dim (self_attn dl) = num_heads (self_attn dl) * head_dim (self_attn dl))
              = (decoder_attention_heads config dvd d_model config))
         \<and> ((embed_dim (encoder_attn dl)
                = num_heads (encoder_attn dl) * head_dim (encoder_attn dl))
              = (decoder_attention_heads config dvd d_model config))"
proof -
  let ?d = "d_model config"
  let ?he = "encoder_attention_heads config"
  let ?hd = "decoder_attention_heads config"
  note ne = floor_quotient_nonzero[OF assms(1,2)]
  note nd = floor_quotient_nonzero[OF assms(3,4)]
  obtain a where a: "M2M100Attention_init ?d ?he (attention_dropout config) False True False
                       (Some config) (w_enc_self_attn we) = Inr a"
      "embed_dim a = ?d" "num_heads a = ?he" "head_dim a = ?d div ?he"
    using M2M100Attention_init_ok[OF ne] by blast
  obtain sa where sa: "M2M100Attention_init ?d ?hd (attention_dropout config) True True True
                         (Some config) (w_self_attn wd) = Inr sa"
      "embed_dim sa = ?d" "num_heads sa = ?hd" "head_dim sa = ?d div ?hd"
    using M2M100Attention_init_ok[OF nd] by blast
  obtain ea where ea: "M2M100Attention_init ?d ?hd (attention_dropout config) True True False
                         (Some config) (w_encoder_attn wd) = Inr ea"
      "embed_dim ea = ?d" "num_heads ea = ?hd" "head_dim ea = ?d div ?hd"
    using M2M100Attention_init_ok[OF nd] by blast
  have el: "\<exists>el. M2M100EncoderLayer_init gelu config we = Inr el \<and> enc_self_attn el = a"
    by (simp add: M2M100EncoderLayer_init_def a(1))
  have dl: "\<exists>dl. M2M100DecoderLayer_init gelu config wd = Inr dl
                 \<and> self_attn dl = sa \<and> encoder_attn dl = ea"
    by (simp add: M2M100DecoderLayer_init_def sa(1) ea(1))
  from el dl show ?thesis
    using a(2-4) sa(2-4) ea(2-4)
      product_with_quotient[OF ne(1), of ?d] product_with_quotient[OF nd(1), of ?d]
    by auto
qed

text \<open>
  The theorem at hidden size 10 with 3 heads, where 3 does not divide 10: both layers are
  constructed, with \<open>head_dim = 3\<close>.
\<close>

theorem head_dim_is_floor_quotient_witness:
  "0 < encoder_attention_heads (example_config 10 3)
   \<and> encoder_attention_heads (example_config 10 3) \<le> d_model (example_config 10 3)
   \<and> 0 < decoder_attention_heads (example_config 10 3)
   \<and> decoder_attention_heads (example_config 10 3) \<le> d_model (example_config 10 3)
   \<and> (\<exists>el dl.
           M2M100EncoderLayer_init relu (example_config 10 3) (example_encoder_weights 10) = Inr el
         \<and> M2M100DecoderLayer_init relu (example_config 10 3) (example_decoder_weights 10) = Inr dl
         \<and> head_dim (enc_self_attn el) = 3
         \<and> head_dim (self_attn dl) = 3
         \<and> head_dim (encoder_attn dl) = 3
         \<and> embed_dim (enc_self_attn el) \<noteq> num_heads (enc_self_attn el) * head_dim (enc_self_attn el)
         \<and> embed_dim (self_attn dl) \<noteq> num_heads (self_attn dl) * head_dim (self_attn dl)
         \<and> embed_dim (encoder_attn dl) \<noteq> num_heads (encoder_attn dl) * head_dim (encoder_attn dl))"
proof -
  have h: "0 < encoder_attention_heads (example_config 10 3)"
          "encoder_attention_heads (example_config 10 3) \<le> d_model (example_config 10 3)"
          "0 < decoder_attention_heads (example_config 10 3)"
          "decoder_attention_heads (example_config 10 3) \<le> d_model (example_config 10 3)"
    by (simp_all add: example_config_def)
  have v: "d_model (example_config 10 3) = 10" "encoder_attention_heads (example_config 10 3) = 3"
          "decoder_attention_heads (example_config 10 3) = 3"
    by (simp_all add: example_config_def)
  from head_dim_is_floor_quotient[OF h, of relu "example_encoder_weights 10"
      "example_decoder_weights 10"]
  show ?thesis using h unfolding v by simp
qed

text \<open>
  C6 as the specification states it fails: for \<open>embed_dim = 10\<close> and \<open>num_heads = 3\<close>
  the constructor of the attention module returns a module, not an error, and its
  \<open>num_heads * head_dim\<close> is 9.
\<close>

theorem head_dim_counterexample:
  "M2M100Attention_init 10 3 0 False True False None (const_projections 10) =
     Inr \<lparr> args = None, embed_dim = 10, num_heads = 3, attn_dropout = 0, head_dim = 3,
           scaling = 3 powr (- (1 / 2)), is_decoder = False, is_causal = False,
           k_proj = const_linear 10 10 1, v_proj = const_linear 10 10 1,
           q_proj = const_linear 10 10 1, out_proj = const_linear 10 10 1 \<rparr>
   \<and> (3::int) * 3 \<noteq> 10"
  by (simp add: M2M100Attention_init_def const_projections_def Let_def)

subsection \<open>Evaluating the library operations on small arrays\<close>

lemmas array_ops =
  mx_reshape_def mx_transpose_def mx_concatenate_def mx_matmul_def mx_binary_def mx_add_def
  mx_multiply_def mx_softmax_def Linear_call_def rows_def last_dim_def mx_size_def
  broadcastable_def broadcast_shape_def pad_shape_def broadcast_get_def dot_def index_of_def
  py_index_def const_linear_def softmax_row_def

lemmas attention_defs =
  M2M100Attention_call_def M2M100Attention_scores_def M2M100Attention_key_value_def
  project_key_value_def M2M100Attention_shape_def example_attention_def

lemma example_attention_init:
  "M2M100Attention_init 1 1 0 dec True causal (Some (example_config 1 1)) (const_projections 1)
     = Inr (example_attention dec causal)"
  by (simp add: M2M100Attention_init_def example_attention_def const_projections_def Let_def)

lemma example_self_attention:
  "M2M100Attention_call (example_attention True c) \<lparr> shape = [1, 1, 1], data = [x] \<rparr> None None
     (Some \<lparr> shape = [1, 1, 1, 1], data = [0] \<rparr>) None
   = Inr \<lparr> shape = [1, 1, 1], data = [x] \<rparr>"
  by (simp add: attention_defs array_ops Let_def)

lemma example_cross_attention:
  "M2M100Attention_call (example_attention True c) \<lparr> shape = [1, 1, 1], data = [x] \<rparr>
     (Some \<lparr> shape = [1, 1, 1], data = [y] \<rparr>) None
     (Some \<lparr> shape = [1, 1, 1, 1], data = [0] \<rparr>) None
   = Inr \<lparr> shape = [1, 1, 1], data = [y] \<rparr>"
  by (simp add: attention_defs array_ops Let_def)

lemma example_key_value:
  "M2M100Attention_key_value (example_attention True c) \<lparr> shape = [1, 1, 1], data = [x] \<rparr>
     None None 1
   = Inr (\<lparr> shape = [1, 1, 1, 1], data = [x] \<rparr>, \<lparr> shape = [1, 1, 1, 1], data = [x] \<rparr>)"
  by (simp add: attention_defs array_ops Let_def)

lemma example_key_value_cached:
  "M2M100Attention_key_value (example_attention True c) \<lparr> shape = [1, 1, 1], data = [y] \<rparr> None
     (Some (\<lparr> shape = [1, 1, 1, 1], data = [x] \<rparr>, \<lparr> shape = [1, 1, 1, 1], data = [x] \<rparr>)) 1
   = Inr (\<lparr> shape = [1, 1, 2, 1], data = [x, y] \<rparr>, \<lparr> shape = [1, 1, 2, 1], data = [x, y] \<rparr>)"
  by (simp add: attention_defs array_ops Let_def)

lemma example_layer_norm:
  "LayerNorm_call (plain_layer_norm 1) \<lparr> shape = [1, 1, 1], data = [x] \<rparr>
   = Inr \<lparr> shape = [1, 1, 1], data = [0] \<rparr>"
  by (simp add: LayerNorm_call_def plain_layer_norm_def layer_norm_row_def mean_def rows_def
      last_dim_def mx_multiply_def mx_add_def mx_binary_def broadcastable_def
      broadcast_shape_def pad_shape_def broadcast_get_def Let_def)

lemma example_residual:
  "mx_add \<lparr> shape = [1, 1, 1], data = [x] \<rparr> \<lparr> shape = [1, 1, 1], data = [y] \<rparr>
   = Inr \<lparr> shape = [1, 1, 1], data = [x + y] \<rparr>"
  by (simp add: mx_add_def mx_binary_def broadcastable_def broadcast_shape_def pad_shape_def
      broadcast_get_def Let_def)

lemma example_fc1:
  "Linear_call (const_linear 1 2 1) \<lparr> shape = [1, 1, 1], data = [x] \<rparr>
   = Inr \<lparr> shape = [1, 1, 2], data = [x, x] \<rparr>"
  by (simp add: array_ops Let_def eval_nat_numeral)

lemma example_fc2:
  "Linear_call (const_linear 2 1 1) \<lparr> shape = [1, 1, 2], data = [x, y] \<rparr>
   = Inr \<lparr> shape = [1, 1, 1], data = [x + y] \<rparr>"
  by (simp add: array_ops Let_def eval_nat_numeral)

lemma example_relu:
  "mx_map relu \<lparr> shape = [1, 1, 2], data = [0, 0] \<rparr> = \<lparr> shape = [1, 1, 2], data = [0, 0] \<rparr>"
  by (simp add: mx_map_def relu_def)

lemma example_decoder_layer_init:
  "M2M100DecoderLayer_init relu (example_config 1 1) (example_decoder_weights 1)
     = Inr example_decoder_layer"
  by (simp add: M2M100DecoderLayer_init_def M2M100Attention_init_def example_config_def
      example_decoder_weights_def example_decoder_layer_def example_attention_def
      const_projections_def select_activation_def Let_def)

lemma example_decoder_layer_call:
  "M2M100DecoderLayer_call example_decoder_layer \<lparr> shape = [1, 1, 1], data = [3] \<rparr>
     (Some \<lparr> shape = [1, 1, 1], data = [5] \<rparr>)
     (Some \<lparr> shape = [1, 1, 1, 1], data = [0] \<rparr>) (Some \<lparr> shape = [1, 1, 1, 1], data = [0] \<rparr>)
   = Inr \<lparr> shape = [1, 1, 1], data = [8] \<rparr>"
  by (simp add: M2M100DecoderLayer_call_def example_decoder_layer_def Let_def
      example_layer_norm example_self_attention example_cross_attention example_residual
      example_fc1 example_fc2 example_relu del: One_nat_def)

subsection \<open>Positional embedding\<close>

lemma example_positions_init:
  "M2M100SinusoidalPositionalEmbedding_init 1024 4 None = Inr example_positions"
  by (simp add: M2M100SinusoidalPositionalEmbedding_init_def nn_SinusoidalPositionalEncoding_def
      example_positions_def Let_def upt_rec ln_div exp_minus algebra_simps)

lemma positions_of_id_0:
  "M2M100SinusoidalPositionalEmbedding_call example_positions \<lparr> shape = [1, 1], data = [0] \<rparr> k
   = \<lparr> shape = [1, 1, 4], data = [0, 0, sqrt (1 / 2), sqrt (1 / 2)] \<rparr>"
  by (simp add: M2M100SinusoidalPositionalEmbedding_call_def SinusoidalPositionalEncoding_call_def
      encode_value_def example_positions_def)

lemma positions_of_id_1:
  "M2M100SinusoidalPositionalEmbedding_call example_positions \<lparr> shape = [1, 1], data = [1] \<rparr> k
   = \<lparr> shape = [1, 1, 4],
       data = [sin 1 * sqrt (1 / 2), sin (1 / 10000) * sqrt (1 / 2),
               cos 1 * sqrt (1 / 2), cos (1 / 10000) * sqrt (1 / 2)] \<rparr>"
  by (simp add: M2M100SinusoidalPositionalEmbedding_call_def SinusoidalPositionalEncoding_call_def
      encode_value_def example_positions_def)

lemma positions_of_ids_0_0_sliced:
  "mx_slice_axis1
     (M2M100SinusoidalPositionalEmbedding_call example_positions
        \<lparr> shape = [1, 2], data = [0, 0] \<rparr> k) 1 2
   = Inr \<lparr> shape = [1, 1, 4], data = [0, 0, sqrt (1 / 2), sqrt (1 / 2)] \<rparr>"
  by (simp add: M2M100SinusoidalPositionalEmbedding_call_def SinusoidalPositionalEncoding_call_def
      encode_value_def example_positions_def mx_slice_axis1_def Let_def)

lemma sin_1_nonzero: "sin (1::real) \<noteq> 0"
  using sin_gt_zero_02[of "1::real"] by simp

lemma positional_embedding_ignores_offset:
  "M2M100SinusoidalPositionalEmbedding_call self input_ids k
   = M2M100SinusoidalPositionalEmbedding_call self input_ids k'"
  by (simp add: M2M100SinusoidalPositionalEmbedding_call_def)

lemma drop_concat_rows:
  assumes "\<And>x. length (f x) = c"
  shows "drop (m * c) (concat (map f xs)) = concat (map f (drop m xs))"
proof (induction xs arbitrary: m)
  case Nil
  then show ?case by simp
next
  case (Cons x xs)
  show ?case
  proof (cases m)
    case 0
    then show ?thesis by simp
  next
    case (Suc m')
    then show ?thesis using Cons.IH[of m'] assms[of x] by simp
  qed
qed

lemma take_concat_rows:
  assumes "\<And>x. length (f x) = c"
  shows "take (n * c) (concat (map f xs)) = concat (map f (take n xs))"
proof (induction xs arbitrary: n)
  case Nil
  then show ?case by simp
next
  case (Cons x xs)
  show ?case
  proof (cases n)
    case 0
    then show ?thesis by simp
  next
    case (Suc n')
    then show ?thesis using Cons.IH[of n'] assms[of x] by simp
  qed
qed

lemma concat_map_concat:
  "concat (map f (concat xss)) = concat (map (\<lambda>xs. concat (map f xs)) xss)"
  by (induction xss) auto

lemma length_encode_value: "length (encode_value enc v) = 2 * length (sigmas enc)"
  by (simp add: encode_value_def Let_def)

text \<open>
  What the code does guarantee: the embedding of a slice of the ids is the slice of the
  embedding of the ids, whatever the offsets, because every id is encoded on its own.
\<close>

lemma positional_embedding_of_slice:
  assumes "shape input_ids = [b, s]"
      and "mx_slice_axis1 input_ids lo hi = Inr sliced"
  shows "mx_slice_axis1 (M2M100SinusoidalPositionalEmbedding_call self input_ids k) lo hi
         = Inr (M2M100SinusoidalPositionalEmbedding_call self sliced k')"
proof -
  let ?enc = "weights self"
  let ?c = "2 * length (sigmas ?enc)"
  let ?lo = "min lo s"
  let ?hi = "max ?lo (min hi s)"
  have sl: "sliced = \<lparr> shape = [b, ?hi - ?lo],
                       data = concat (map (\<lambda>blk. take (?hi - ?lo) (drop (blk * s + ?lo) (data input_ids)))
                                      [0..<b]) \<rparr>"
    using assms by (simp add: mx_slice_axis1_def Let_def)
  have row: "take ((?hi - ?lo) * ?c) (drop (blk * s * ?c + ?lo * ?c)
                 (concat (map (encode_value ?enc) (data input_ids))))
             = concat (map (encode_value ?enc) (take (?hi - ?lo) (drop (blk * s + ?lo) (data input_ids))))"
    for blk
  proof -
    have "blk * s * ?c + ?lo * ?c = (blk * s + ?lo) * ?c" by (simp add: algebra_simps)
    then show ?thesis
      using drop_concat_rows[of "encode_value ?enc" ?c "blk * s + ?lo" "data input_ids"]
        take_concat_rows[of "encode_value ?enc" ?c "?hi - ?lo"]
      by (simp add: length_encode_value)
  qed
  let ?D = "concat (map (encode_value ?enc) (data input_ids))"
  have "mx_slice_axis1 \<lparr> shape = [b, s, ?c], data = ?D \<rparr> lo hi
        = Inr \<lparr> shape = [b, ?hi - ?lo, ?c],
                data = concat (map (\<lambda>blk. take ((?hi - ?lo) * ?c) (drop (blk * s * ?c + ?lo * ?c) ?D))
                               [0..<b]) \<rparr>"
    by (simp add: mx_slice_axis1_def Let_def)
  also have "\<dots> = Inr \<lparr> shape = [b, ?hi - ?lo, ?c],
                data = concat (map (\<lambda>blk. concat (map (encode_value ?enc)
                                 (take (?hi - ?lo) (drop (blk * s + ?lo) (data input_ids)))))
                               [0..<b]) \<rparr>"
    by (simp only: row)
  also have "\<dots> = Inr (M2M100SinusoidalPositionalEmbedding_call self sliced k')"
    unfolding M2M100SinusoidalPositionalEmbedding_call_def SinusoidalPositionalEncoding_call_def
    by (simp add: sl concat_map_concat comp_def)
  finally show ?thesis
    unfolding M2M100SinusoidalPositionalEmbedding_call_def SinusoidalPositionalEncoding_call_def
      assms(1) by simp
qed

lemma row_of_concat:
  assumes "\<And>x. length (f x) = c" and "j < length xs"
  shows "take c (drop (j * c) (concat (map f xs))) = f (xs ! j)"
proof -
  have "take c (drop (j * c) (concat (map f xs))) = take (1 * c) (concat (map f (drop j xs)))"
    using drop_concat_rows[of f c j xs] assms(1) by simp
  also have "\<dots> = concat (map f (take 1 (drop j xs)))"
    using take_concat_rows[of f c 1 "drop j xs"] assms(1) by simp
  also have "\<dots> = f (xs ! j)"
    using Cons_nth_drop_Suc[OF assms(2), symmetric] by simp
  finally show ?thesis .
qed

lemma library_frequency:
  assumes "2 \<le> h"
  shows "exp ((1 - real i / real_of_int (h - 1)) * (ln 1 - ln (1 / 10000)) + ln (1 / 10000))
         = 10000 powr (- (real i / real_of_int (h - 1)))"
proof -
  have "ln (1 / 10000 :: real) = - ln 10000" by (simp add: ln_div)
  then show ?thesis by (simp add: powr_def algebra_simps)
qed

text \<open>
  C1, as the code has it.  For a module constructed with \<open>4 \<le> embedding_dim\<close>, the
  output has the shape of the input ids extended by a last axis of size
  \<open>2 * (embedding_dim // 2)\<close>.  Along that axis every entry holds, for one number \<open>q\<close>,
  first the \<open>embedding_dim // 2\<close> sines and then the \<open>embedding_dim // 2\<close> cosines of
  \<open>q / 10000 ^ (i / (embedding_dim // 2 - 1))\<close>, each multiplied by
  \<open>sqrt (2 / embedding_dim)\<close>.  The statement leaves open which number an entry encodes.
\<close>

theorem positional_embedding_layout:
  assumes "M2M100SinusoidalPositionalEmbedding_init np dims pad = Inr self"
      and "4 \<le> dims"
  shows "shape (M2M100SinusoidalPositionalEmbedding_call self input_ids k)
           = shape input_ids @ [2 * nat (dims div 2)]
       \<and> (\<forall>j<length (data input_ids). \<exists>q.
             take (2 * nat (dims div 2)) (drop (j * (2 * nat (dims div 2)))
                  (data (M2M100SinusoidalPositionalEmbedding_call self input_ids k)))
             = map (\<lambda>i. sin (q * 10000 powr (- (real i / real_of_int (dims div 2 - 1))))
                           * sqrt (2 / real_of_int dims)) [0..<nat (dims div 2)]
               @ map (\<lambda>i. cos (q * 10000 powr (- (real i / real_of_int (dims div 2 - 1))))
                           * sqrt (2 / real_of_int dims)) [0..<nat (dims div 2)])"
proof -
  let ?h = "dims div 2"
  let ?freq = "\<lambda>i. 10000 powr (- (real i / real_of_int (?h - 1)))"
  have h2: "2 \<le> ?h" using assms(2) by simp
  have w: "weights self = \<lparr> sigmas = map ?freq [0..<nat ?h],
                             pe_scale = sqrt (2 / real_of_int dims), cos_first = False \<rparr>"
    using assms library_frequency[OF h2]
    by (auto simp: M2M100SinusoidalPositionalEmbedding_init_def nn_SinusoidalPositionalEncoding_def
        Let_def split: if_splits)
  have len: "length (sigmas (weights self)) = nat ?h" by (simp add: w)
  have enc: "encode_value (weights self) v
             = map (\<lambda>i. sin (real_of_int v * ?freq i) * sqrt (2 / real_of_int dims)) [0..<nat ?h]
               @ map (\<lambda>i. cos (real_of_int v * ?freq i) * sqrt (2 / real_of_int dims)) [0..<nat ?h]"
    for v
    by (simp add: encode_value_def w Let_def comp_def)
  have sh: "shape (M2M100SinusoidalPositionalEmbedding_call self input_ids k)
           = shape input_ids @ [2 * nat ?h]"
    by (simp add: M2M100SinusoidalPositionalEmbedding_call_def SinusoidalPositionalEncoding_call_def len)
  have rows: "\<exists>q. take (2 * nat ?h) (drop (j * (2 * nat ?h))
                  (data (M2M100SinusoidalPositionalEmbedding_call self input_ids k)))
             = map (\<lambda>i. sin (q * ?freq i) * sqrt (2 / real_of_int dims)) [0..<nat ?h]
               @ map (\<lambda>i. cos (q * ?freq i) * sqrt (2 / real_of_int dims)) [0..<nat ?h]"
    if j: "j < length (data input_ids)" for j
  proof -
    have "take (2 * nat ?h) (drop (j * (2 * nat ?h))
                  (data (M2M100SinusoidalPositionalEmbedding_call self input_ids k)))
          = encode_value (weights self) (data input_ids ! j)"
      unfolding M2M100SinusoidalPositionalEmbedding_call_def SinusoidalPositionalEncoding_call_def
      using row_of_concat[of "encode_value (weights self)" "2 * nat ?h" j "data input_ids"] j
      by (simp add: length_encode_value len)
    then show ?thesis unfolding enc by blast
  qed
  show ?thesis using sh rows by blast
qed

text \<open>
  The theorem at \<open>embedding_dim = 4\<close> on the ids \<open>[[1]]\<close>: the module is constructed and
  the output has shape \<open>[1, 1, 4]\<close>.
\<close>

theorem positional_embedding_layout_witness:
  "M2M100SinusoidalPositionalEmbedding_init 1024 4 None = Inr example_positions
   \<and> (4::int) \<le> 4
   \<and> shape (M2M100SinusoidalPositionalEmbedding_call example_positions
              \<lparr> shape = [1, 1], data = [1] \<rparr> (0::int)) = [1, 1, 4]"
proof -
  have h: "M2M100SinusoidalPositionalEmbedding_init 1024 4 None = Inr example_positions"
    by (rule example_positions_init)
  from positional_embedding_layout[OF h, of "\<lparr> shape = [1, 1], data = [1] \<rparr>" "0::int"]
  show ?thesis using h by simp
qed

text \<open>
  C1 as the specification states it fails.  The module
  \<open>M2M100SinusoidalPositionalEmbedding(1024, 4)\<close> maps the ids \<open>[[0]]\<close> at offset 0 to
  \<open>[0, 0, sqrt (1 / 2), sqrt (1 / 2)]\<close>, where sine at the even and cosine at the odd
  indices of position 0 would be \<open>[0, 1, 0, 1]\<close>.  It maps \<open>[[0]]\<close> and \<open>[[1]]\<close>, of the same
  shape and at the same offset, to different outputs, and the offset has no effect: at
  offset 5 the output for \<open>[[1]]\<close> is the one at offset 0.
\<close>

theorem positional_embedding_follows_token_ids:
  "M2M100SinusoidalPositionalEmbedding_init 1024 4 None = Inr example_positions
   \<and> M2M100SinusoidalPositionalEmbedding_call example_positions
        \<lparr> shape = [1, 1], data = [0] \<rparr> (0::int)
       = \<lparr> shape = [1, 1, 4], data = [0, 0, sqrt (1 / 2), sqrt (1 / 2)] \<rparr>
   \<and> M2M100SinusoidalPositionalEmbedding_call example_positions
        \<lparr> shape = [1, 1], data = [0] \<rparr> (0::int)
       \<noteq> \<lparr> shape = [1, 1, 4], data = [sin 0, cos 0, sin 0, cos 0] \<rparr>
   \<and> M2M100SinusoidalPositionalEmbedding_call example_positions
        \<lparr> shape = [1, 1], data = [1] \<rparr> (0::int)
       = \<lparr> shape = [1, 1, 4],
           data = [sin 1 * sqrt (1 / 2), sin (1 / 10000) * sqrt (1 / 2),
                   cos 1 * sqrt (1 / 2), cos (1 / 10000) * sqrt (1 / 2)] \<rparr>
   \<and> M2M100SinusoidalPositionalEmbedding_call example_positions
        \<lparr> shape = [1, 1], data = [0] \<rparr> (0::int)
       \<noteq> M2M100SinusoidalPositionalEmbedding_call example_positions
           \<lparr> shape = [1, 1], data = [1] \<rparr> (0::int)
   \<and> M2M100SinusoidalPositionalEmbedding_call example_positions
        \<lparr> shape = [1, 1], data = [1] \<rparr> (5::int)
       = M2M100SinusoidalPositionalEmbedding_call example_positions
           \<lparr> shape = [1, 1], data = [1] \<rparr> (0::int)"
  unfolding positions_of_id_0 positions_of_id_1
  using sin_1_nonzero by (simp add: example_positions_init)

text \<open>
  C4 fails on the code.  With \<open>k = 1\<close> and \<open>n = 1\<close>: the embedding at offset 1 of the
  one-token sequence \<open>[[1]]\<close> is not the embedding at offset 0 of the two-token sequence
  \<open>[[0, 0]]\<close> sliced to position 1.
\<close>

theorem positional_embedding_slice_differs:
  "mx_slice_axis1
     (M2M100SinusoidalPositionalEmbedding_call example_positions
        \<lparr> shape = [1, 2], data = [0, 0] \<rparr> (0::int)) 1 2
     = Inr \<lparr> shape = [1, 1, 4], data = [0, 0, sqrt (1 / 2), sqrt (1 / 2)] \<rparr>
   \<and> M2M100SinusoidalPositionalEmbedding_call example_positions
        \<lparr> shape = [1, 1], data = [1] \<rparr> (1::int)
       = \<lparr> shape = [1, 1, 4],
           data = [sin 1 * sqrt (1 / 2), sin (1 / 10000) * sqrt (1 / 2),
                   cos 1 * sqrt (1 / 2), cos (1 / 10000) * sqrt (1 / 2)] \<rparr>
   \<and> mx_slice_axis1
        (M2M100SinusoidalPositionalEmbedding_call example_positions
           \<lparr> shape = [1, 2], data = [0, 0] \<rparr> (0::int)) 1 2
       \<noteq> Inr (M2M100SinusoidalPositionalEmbedding_call example_positions
                \<lparr> shape = [1, 1], data = [1] \<rparr> (1::int))"
  unfolding positions_of_ids_0_0_sliced positions_of_id_1
  using sin_1_nonzero by simp

subsection \<open>Attention: the cache\<close>

lemma M2M100Attention_shape_is_decoder:
  "M2M100Attention_shape (self\<lparr>is_decoder := b\<rparr>) t n bsz = M2M100Attention_shape self t n bsz"
  by (simp add: M2M100Attention_shape_def)

lemma project_key_value_is_decoder:
  "project_key_value (self\<lparr>is_decoder := b\<rparr>) x bsz = project_key_value self x bsz"
  by (simp add: project_key_value_def M2M100Attention_shape_is_decoder)

lemma M2M100Attention_key_value_is_decoder:
  "M2M100Attention_key_value (self\<lparr>is_decoder := b\<rparr>) hs kv pkv bsz
   = M2M100Attention_key_value self hs kv pkv bsz"
  by (simp add: M2M100Attention_key_value_def project_key_value_is_decoder
      cong: option.case_cong if_cong)

lemma M2M100Attention_scores_is_decoder:
  "M2M100Attention_scores (self\<lparr>is_decoder := b\<rparr>) hs kv pkv
   = M2M100Attention_scores self hs kv pkv"
  by (simp add: M2M100Attention_scores_def M2M100Attention_key_value_is_decoder
      M2M100Attention_shape_is_decoder Let_def cong: if_cong)

text \<open>The flag \<open>is_decoder\<close> has no effect on what a call returns.\<close>

lemma M2M100Attention_call_is_decoder:
  "M2M100Attention_call (self\<lparr>is_decoder := b\<rparr>) hs kv pkv m lhm
   = M2M100Attention_call self hs kv pkv m lhm"
  by (simp add: M2M100Attention_call_def M2M100Attention_scores_is_decoder Let_def
      cong: option.case_cong if_cong)

text \<open>
  On the one-head module the step with a cache raises for every cache length \<open>p > 0\<close>,
  whatever the cached states and the mask.
\<close>

lemma example_incremental_step_raises:
  assumes "0 < p"
  shows "M2M100Attention_call (example_attention True True)
           \<lparr> shape = [1, 1, 1], data = [x] \<rparr> None
           (Some (\<lparr> shape = [1, 1, p, 1], data = ks \<rparr>, \<lparr> shape = [1, 1, p, 1], data = vs \<rparr>))
           m None
         = Inl (ValueError ''[reshape] Cannot reshape array into the given shape.'')"
  using assms by (simp add: attention_defs array_ops Let_def)

text \<open>
  C2 fails on the code.  Two tokens \<open>1\<close> and \<open>2\<close>, one head of dimension one, identity
  projections, a mask of zeros.  The first token's key and value states are the cache of
  step two; the code does concatenate the new states to them along axis 2 (shape
  \<open>[1, 1, 2, 1]\<close>).  The call of step two then raises, because line 133 reshapes the
  two cached-and-new keys to \<open>proj_shape = (bsz * num_heads, tgt_len, head_dim) = (1, 1, 1)\<close>.
  The call on the full two-token sequence returns hidden states.
\<close>

theorem incremental_self_attention_raises:
  "M2M100Attention_key_value (example_attention True True)
      \<lparr> shape = [1, 1, 1], data = [1] \<rparr> None None 1
     = Inr (\<lparr> shape = [1, 1, 1, 1], data = [1] \<rparr>, \<lparr> shape = [1, 1, 1, 1], data = [1] \<rparr>)
   \<and> M2M100Attention_key_value (example_attention True True)
        \<lparr> shape = [1, 1, 1], data = [2] \<rparr> None
        (Some (\<lparr> shape = [1, 1, 1, 1], data = [1] \<rparr>, \<lparr> shape = [1, 1, 1, 1], data = [1] \<rparr>)) 1
       = Inr (\<lparr> shape = [1, 1, 2, 1], data = [1, 2] \<rparr>, \<lparr> shape = [1, 1, 2, 1], data = [1, 2] \<rparr>)
   \<and> M2M100Attention_call (example_attention True True)
        \<lparr> shape = [1, 1, 1], data = [2] \<rparr> None
        (Some (\<lparr> shape = [1, 1, 1, 1], data = [1] \<rparr>, \<lparr> shape = [1, 1, 1, 1], data = [1] \<rparr>))
        (Some \<lparr> shape = [1, 1, 1, 2], data = [0, 0] \<rparr>) None
       = Inl (ValueError ''[reshape] Cannot reshape array into the given shape.'')
   \<and> (\<exists>out. M2M100Attention_call (example_attention True True)
               \<lparr> shape = [1, 2, 1], data = [1, 2] \<rparr> None None
               (Some \<lparr> shape = [1, 1, 2, 2], data = [0, 0, 0, 0] \<rparr>) None = Inr out
            \<and> shape out = [1, 2, 1])"
  by (simp add: attention_defs array_ops Let_def)

text \<open>
  C3 fails on the code.  A call of an attention module with \<open>is_decoder = True\<close> returns
  one array, the attention output of shape \<open>[bsz, tgt_len, embed_dim]\<close>; the key and
  value states it computed (of shape \<open>[1, 1, 1, 1]\<close> here) are not part of the result.
  A call of a decoder layer returns the hidden states alone.
\<close>

theorem decoder_calls_return_no_cache:
  "M2M100Attention_init 1 1 0 True True True (Some (example_config 1 1)) (const_projections 1)
     = Inr (example_attention True True)
   \<and> M2M100Attention_key_value (example_attention True True)
        \<lparr> shape = [1, 1, 1], data = [3] \<rparr> None None 1
       = Inr (\<lparr> shape = [1, 1, 1, 1], data = [3] \<rparr>, \<lparr> shape = [1, 1, 1, 1], data = [3] \<rparr>)
   \<and> M2M100Attention_call (example_attention True True)
        \<lparr> shape = [1, 1, 1], data = [3] \<rparr> None None
        (Some \<lparr> shape = [1, 1, 1, 1], data = [0] \<rparr>) None
       = Inr \<lparr> shape = [1, 1, 1], data = [3] \<rparr>
   \<and> M2M100DecoderLayer_init relu (example_config 1 1) (example_decoder_weights 1)
       = Inr example_decoder_layer
   \<and> M2M100DecoderLayer_call example_decoder_layer \<lparr> shape = [1, 1, 1], data = [3] \<rparr>
        (Some \<lparr> shape = [1, 1, 1], data = [5] \<rparr>)
        (Some \<lparr> shape = [1, 1, 1, 1], data = [0] \<rparr>)
        (Some \<lparr> shape = [1, 1, 1, 1], data = [0] \<rparr>)
       = Inr \<lparr> shape = [1, 1, 1], data = [8] \<rparr>"
  by (simp only: example_attention_init example_key_value example_self_attention
      example_decoder_layer_init example_decoder_layer_call simp_thms)

subsection \<open>Attention without a mask\<close>

text \<open>No call with \<open>attention_mask = None\<close> returns a value.\<close>

lemma attention_without_mask_never_returns:
  "M2M100Attention_call self hs kv pkv None lhm \<noteq> Inr out"
proof (cases "M2M100Attention_scores self hs kv pkv")
  case (Inl e)
  then show ?thesis by (simp add: M2M100Attention_call_def)
next
  case (Inr r)
  obtain bsz tgt_len src_len aw vs where r: "r = (bsz, tgt_len, src_len, aw, vs)"
    by (cases r) auto
  show ?thesis by (simp add: M2M100Attention_call_def Inr r Let_def)
qed

text \<open>
  C9 fails on the code.  A self-attention call of the encoder's kind on one token, with
  \<open>attention_mask = None\<close>, raises at line 146, where the mask's shape is read for a
  \<^verbatim>\<open>print\<close>, before the test \<^verbatim>\<open>attention_mask is not None\<close> of line 148.
\<close>

theorem attention_without_mask_raises:
  "M2M100Attention_call (example_attention False False)
     \<lparr> shape = [1, 1, 1], data = [3] \<rparr> None None None None
   = Inl (AttributeError ''NoneType object has no attribute shape'')"
  by (simp add: attention_defs array_ops Let_def)

subsection \<open>Attention: the two shape checks\<close>










subsection \<open>The messages report the shapes\<close>

lemma digit_cases: "d < 10 \<Longrightarrow> d = 0 \<or> d = 1 \<or> d = 2 \<or> d = 3 \<or> d = 4 \<or> d = 5 \<or> d = 6 \<or> d = 7
     \<or> d = 8 \<or> d = (9::nat)"
  by arith

lemma digit_value_digit_char: "d < 10 \<Longrightarrow> digit_value (digit_char d) = d"
  by (drule digit_cases) (auto simp: digit_value_def digit_char_def)

lemma digit_char_plain:
  "d < 10 \<Longrightarrow> item_char (digit_char d) \<and> digit_char d \<noteq> CHR ''-''"
  by (drule digit_cases) (auto simp: item_char_def digit_char_def)

lemma parse_nat_snoc: "parse_nat (s @ [c]) = 10 * parse_nat s + digit_value c"
  by (simp add: parse_nat_def)

lemma parse_nat_str_nat: "parse_nat (str_nat n) = n"
proof (induction n rule: str_nat.induct)
  case (1 n)
  show ?case
  proof (cases "n < 10")
    case True
    then show ?thesis
      by (simp add: str_nat.simps[of n] parse_nat_def digit_value_digit_char)
  next
    case False
    then show ?thesis
      using 1 by (simp add: str_nat.simps[of n] parse_nat_snoc digit_value_digit_char)
  qed
qed

lemma str_nat_chars: "c \<in> set (str_nat n) \<Longrightarrow> item_char c \<and> c \<noteq> CHR ''-''"
proof (induction n rule: str_nat.induct)
  case (1 n)
  show ?case
  proof (cases "n < 10")
    case True
    then show ?thesis using 1(2) digit_char_plain[of n] by (simp add: str_nat.simps[of n])
  next
    case False
    then show ?thesis
      using 1 digit_char_plain[of "n mod 10"] by (auto simp: str_nat.simps[of n])
  qed
qed

lemma str_nat_nonempty: "str_nat n \<noteq> []"
  by (subst str_nat.simps) simp

lemma parse_int_str_int: "parse_int (str_int i) = i"
proof (cases "i < 0")
  case True
  then show ?thesis by (simp add: str_int_def parse_int_def parse_nat_str_nat)
next
  case False
  obtain c cs where s: "str_nat (nat i) = c # cs"
    using str_nat_nonempty[of "nat i"] by (cases "str_nat (nat i)") auto
  have "c \<noteq> CHR ''-''" using str_nat_chars[of c "nat i"] s by simp
  then show ?thesis
    using False parse_nat_str_nat[of "nat i"] by (simp add: str_int_def parse_int_def s)
qed

lemma str_int_chars: "c \<in> set (str_int i) \<Longrightarrow> item_char c"
  using str_nat_chars by (auto simp: str_int_def item_char_def split: if_splits)

lemma str_int_nonempty: "str_int i \<noteq> []"
  by (simp add: str_int_def str_nat_nonempty)

lemma split_items_item:
  "\<forall>c\<in>set s. item_char c \<Longrightarrow> split_items item (s @ rest) = split_items (item @ s) rest"
  by (induction s arbitrary: item) (auto simp: item_char_def)

lemma split_items_join:
  assumes "ss \<noteq> []" and "\<forall>s\<in>set ss. \<forall>c\<in>set s. item_char c"
  shows "split_items item (join_comma ss @ '')'') = (item @ hd ss) # tl ss"
  using assms
proof (induction ss arbitrary: item rule: join_comma.induct)
  case 1
  then show ?case by simp
next
  case (2 s)
  then show ?case using split_items_item[of s item "'')''"] by simp
next
  case (3 s t ts)
  have "split_items item (join_comma (s # t # ts) @ '')'')
          = split_items (item @ s) ('', '' @ join_comma (t # ts) @ '')'')"
    using 3(3) split_items_item[of s item "'', '' @ join_comma (t # ts) @ '')''"] by simp
  also have "\<dots> = (item @ s) # split_items [] (join_comma (t # ts) @ '')'')" by simp
  also have "\<dots> = (item @ s) # t # ts" using 3(1)[of "[]"] 3(3) by simp
  finally show ?case by simp
qed

lemma parse_tuple_str_tuple: "parse_tuple (str_tuple xs) = xs"
proof (cases xs)
  case Nil
  then show ?thesis by (simp add: parse_tuple_def str_tuple_def)
next
  case (Cons x ys)
  show ?thesis
  proof (cases ys)
    case Nil
    have "split_items [] (''('' @ str_int x @ '',)'') = [str_int x, []]"
      using split_items_item[of "str_int x" "[]" "'',)''"] str_int_chars[of _ x] by simp
    then show ?thesis
      using Cons Nil by (simp add: parse_tuple_def str_tuple_def str_int_nonempty parse_int_str_int)
  next
    case (Cons y zs)
    let ?ss = "map str_int xs"
    have ne: "?ss \<noteq> []" using \<open>xs = x # ys\<close> by simp
    have cl: "\<forall>s\<in>set ?ss. \<forall>c\<in>set s. item_char c" using str_int_chars by auto
    have "split_items [] (''('' @ join_comma ?ss @ '')'') = split_items [] (join_comma ?ss @ '')'')"
      by simp
    also have "\<dots> = ?ss" using split_items_join[OF ne cl, of "[]"] ne by simp
    finally have sp: "split_items [] (''('' @ join_comma ?ss @ '')'') = ?ss" .
    have st: "str_tuple xs = ''('' @ join_comma ?ss @ '')''"
      using \<open>xs = x # ys\<close> Cons by (simp add: str_tuple_def)
    have "filter (\<lambda>item. item \<noteq> []) ?ss = ?ss"
      by (simp add: str_int_nonempty)
    then show ?thesis
      unfolding parse_tuple_def st sp by (simp add: comp_def parse_int_str_int)
  qed
qed


lemma join_comma_chars:
  "c \<in> set (join_comma ss) \<Longrightarrow> c = CHR '','' \<or> c = CHR '' '' \<or> (\<exists>s\<in>set ss. c \<in> set s)"
  by (induction ss rule: join_comma.induct) auto

lemma str_tuple_form:
  "\<exists>inner. str_tuple xs = CHR ''('' # inner @ '')'' \<and> (\<forall>c\<in>set inner. c \<noteq> CHR '')'')"
proof -
  have a: "c \<noteq> CHR '')''" if "c \<in> set (str_int x)" for c x
    using str_int_chars[OF that] by (simp add: item_char_def)
  have b: "c \<noteq> CHR '')''" if "c \<in> set (join_comma (map str_int ys))" for c ys
    using join_comma_chars[OF that] a by auto
  show ?thesis
  proof (cases "\<exists>x. xs = [x]")
    case True
    then obtain x where "xs = [x]" by blast
    then have "str_tuple xs = CHR ''('' # (str_int x @ '','') @ '')''"
      by (simp add: str_tuple_def)
    moreover have "\<forall>c\<in>set (str_int x @ '',''). c \<noteq> CHR '')''" using a by auto
    ultimately show ?thesis by blast
  next
    case False
    then have "str_tuple xs = CHR ''('' # join_comma (map str_int xs) @ '')''"
      by (auto simp: str_tuple_def split: list.splits)
    then show ?thesis using b by blast
  qed
qed

lemma split_items_close: "split_items item (s @ '')'') = split_items item s"
  by (induction s arbitrary: item) auto

lemma message_shapes_read:
  assumes "\<forall>c\<in>set prefix. c \<noteq> CHR ''(''" and "\<forall>c\<in>set middle. c \<noteq> CHR ''(''"
  shows "message_shapes (prefix @ str_tuple expected @ middle @ str_tuple actual)
         = (expected, actual)"
proof -
  obtain inner where e: "str_tuple expected = CHR ''('' # inner @ '')''"
    and i: "\<forall>c\<in>set inner. c \<noteq> CHR '')''" using str_tuple_form by blast
  obtain inner' where a: "str_tuple actual = CHR ''('' # inner' @ '')''"
    using str_tuple_form by blast
  let ?rest = "'')'' @ middle @ str_tuple actual"
  have ff: "dropWhile (\<lambda>c. c \<noteq> CHR ''('') (prefix @ str_tuple expected @ middle @ str_tuple actual)
            = CHR ''('' # inner @ ?rest"
    using assms(1) by (simp add: dropWhile_append2 e)
  have tw: "takeWhile (\<lambda>c. c \<noteq> CHR '')'') (CHR ''('' # inner @ ?rest) = CHR ''('' # inner"
    using i by (simp add: takeWhile_append2)
  have dw: "dropWhile (\<lambda>c. c \<noteq> CHR '')'') (CHR ''('' # inner @ ?rest) = ?rest"
    using i by (simp add: dropWhile_append2)
  have d2: "dropWhile (\<lambda>c. c \<noteq> CHR ''('') ?rest = str_tuple actual"
    using assms(2) by (simp add: dropWhile_append2 a)
  have p1: "parse_tuple (CHR ''('' # inner) = expected"
    using parse_tuple_str_tuple[of expected] split_items_close[of "[]" "CHR ''('' # inner"]
    by (simp add: parse_tuple_def e)
  show ?thesis
    unfolding message_shapes_def Let_def ff tw dw d2 p1 parse_tuple_str_tuple ..
qed

lemma attn_mask_message_read: "message_shapes (attn_mask_message e a) = (e, a)"
  unfolding attn_mask_message_def by (rule message_shapes_read) simp_all

lemma attn_weights_message_read: "message_shapes (attn_weights_message e a) = (e, a)"
  unfolding attn_weights_message_def by (rule message_shapes_read) simp_all


subsection \<open>The shapes at the checks\<close>












subsection \<open>The decoder's forward pass\<close>

text \<open>
  C10.  For every decoder, every array of input ids and every other argument, the forward
  pass of the decoder raises \<^verbatim>\<open>TypeError\<close> at its first statement,
  \<^verbatim>\<open>input_ids.size()\<close>: the part of the call before the loop over the layers already
  fails, so no decoder layer is called.
\<close>

theorem decoder_call_raises_before_layers:
  "M2M100Decoder_inputs self input_ids attention_mask past_key_values
     = Inl (TypeError ''int object is not callable'')
   \<and> M2M100Decoder_call self input_ids encoder_hidden_states attention_mask
        encoder_attention_mask past_key_values
       = Inl (TypeError ''int object is not callable'')"
  by (simp add: M2M100Decoder_call_def M2M100Decoder_inputs_def py_call_int_def)

subsection \<open>The greedy decode loop\<close>

lemma max_list_in: "xs \<noteq> [] \<Longrightarrow> max_list xs \<in> set xs"
  by (induction xs rule: max_list.induct) (auto simp: max_def)

lemma max_list_ge: "v \<in> set xs \<Longrightarrow> v \<le> max_list xs"
  by (induction xs rule: max_list.induct) (auto simp: max_def)

lemma takeWhile_stops: "x \<in> set xs \<Longrightarrow> \<not> P x \<Longrightarrow> length (takeWhile P xs) < length xs"
  by (induction xs) auto

lemma argmax_row_less: "xs \<noteq> [] \<Longrightarrow> argmax_row xs < length xs"
  unfolding argmax_row_def
  using max_list_in[of xs] takeWhile_stops[of "max_list xs" xs "\<lambda>x. x \<noteq> max_list xs"] by simp

lemma argmax_row_max: "xs \<noteq> [] \<Longrightarrow> xs ! argmax_row xs = max_list xs"
  using argmax_row_less[of xs] nth_length_takeWhile[of "\<lambda>x. x \<noteq> max_list xs" xs]
  by (simp add: argmax_row_def)

lemma argmax_row_first: "j < argmax_row xs \<Longrightarrow> xs ! j < max_list xs"
proof -
  assume j: "j < argmax_row xs"
  then have "xs ! j \<noteq> max_list xs"
    unfolding argmax_row_def
    using nth_mem[of j "takeWhile (\<lambda>x. x \<noteq> max_list xs) xs"] set_takeWhileD[of "xs ! j" "\<lambda>x. x \<noteq> max_list xs" xs]
    by (simp add: takeWhile_nth)
  moreover have "j < length xs"
    using j unfolding argmax_row_def
    by (meson length_takeWhile_le less_le_trans)
  ultimately show ?thesis using max_list_ge[of "xs ! j" xs] by force
qed

lemma concatenate_axis1_Inr:
  "concatenate_axis1 a b = Inr c \<Longrightarrow> length a = length b \<and> c = map (\<lambda>(r, t). r @ t) (zip a b)"
  by (auto simp: concatenate_axis1_def split: if_splits)

lemma step_result:
  assumes "forward_mlx_step decode lm_head enc bsz (ids, msk) = Inr (ids', msk')"
  shows "\<exists>outputs all_logits.
           decode ids msk enc = Inr outputs \<and> lm_head outputs = Inr all_logits
         \<and> length all_logits = length ids
         \<and> (\<forall>i<length ids. all_logits ! i \<noteq> [] \<and> last (all_logits ! i) \<noteq> []
               \<and> ids' ! i = ids ! i @ [int (argmax_row (last (all_logits ! i)))])
         \<and> length ids' = length ids
         \<and> msk' = map (\<lambda>r. r @ [1]) msk"
proof -
  from assms obtain outputs all_logits logits next_token where
      d: "decode ids msk enc = Inr outputs" and l: "lm_head outputs = Inr all_logits"
    and lp: "last_position all_logits = Inr logits" and am: "mx_argmax logits = Inr next_token"
    and ci: "concatenate_axis1 ids (map (\<lambda>t. [t]) next_token) = Inr ids'"
    and cm: "concatenate_axis1 msk (replicate bsz [1]) = Inr msk'"
    by (auto simp: forward_mlx_step_def ebind_Inr_iff)
  from lp have ne: "\<forall>p\<in>set all_logits. p \<noteq> []" and lg: "logits = map last all_logits"
    by (auto simp: last_position_def list_ex_iff split: if_splits)
  from am have ne2: "\<forall>row\<in>set logits. row \<noteq> []"
    and nt: "next_token = map (\<lambda>row. int (argmax_row row)) logits"
    by (auto simp: mx_argmax_def list_ex_iff split: if_splits)
  from concatenate_axis1_Inr[OF ci] have len: "length ids = length next_token"
    and ids': "ids' = map (\<lambda>(r, t). r @ t) (zip ids (map (\<lambda>t. [t]) next_token))" by auto
  from concatenate_axis1_Inr[OF cm] have lm: "length msk = bsz"
    and msk': "msk' = map (\<lambda>(r, t). r @ t) (zip msk (replicate bsz [1]))" by auto
  have len2: "length all_logits = length ids" using len nt lg by simp
  have rows: "\<forall>i<length ids. all_logits ! i \<noteq> [] \<and> last (all_logits ! i) \<noteq> []
               \<and> ids' ! i = ids ! i @ [int (argmax_row (last (all_logits ! i)))]"
  proof (intro allI impI)
    fix i assume i: "i < length ids"
    then have a: "all_logits ! i \<in> set all_logits" using len2 by simp
    have b: "logits ! i \<in> set logits" using i len2 lg by simp
    from ne a have n1: "all_logits ! i \<noteq> []" by blast
    have li: "logits ! i = last (all_logits ! i)" using i len2 by (simp add: lg)
    from ne2 b have "logits ! i \<noteq> []" by blast
    then have n2: "last (all_logits ! i) \<noteq> []" unfolding li .
    have il: "i < length logits" using i len2 by (simp add: lg)
    have nti: "next_token ! i = int (argmax_row (last (all_logits ! i)))"
      unfolding nt using il li by simp
    have "ids' ! i = ids ! i @ [next_token ! i]"
      unfolding ids' using i len by simp
    then have n3: "ids' ! i = ids ! i @ [int (argmax_row (last (all_logits ! i)))]"
      unfolding nti .
    show "all_logits ! i \<noteq> [] \<and> last (all_logits ! i) \<noteq> []
               \<and> ids' ! i = ids ! i @ [int (argmax_row (last (all_logits ! i)))]"
      by (intro conjI n1 n2 n3)
  qed
  have m: "msk' = map (\<lambda>r. r @ [1]) msk"
    unfolding msk' using lm by (auto simp: list_eq_iff_nth_eq)
  have li': "length ids' = length ids" unfolding ids' using len by simp
  show ?thesis
    by (intro exI conjI) (rule d, rule l, rule len2, rule rows, rule li', rule m)
qed

lemma loop_rows:
  assumes "forward_mlx_loop decode lm_head enc bsz n (ids, msk) = Inr (ids', msk')"
  shows "length ids' = length ids
       \<and> (\<forall>i<length ids. length (ids' ! i) = length (ids ! i) + n
                         \<and> take (length (ids ! i)) (ids' ! i) = ids ! i)
       \<and> msk' = map (\<lambda>r. r @ replicate n 1) msk"
  using assms
proof (induction n arbitrary: ids msk)
  case 0
  then show ?case by simp
next
  case (Suc n)
  then obtain ids1 msk1 where
      s: "forward_mlx_step decode lm_head enc bsz (ids, msk) = Inr (ids1, msk1)"
    and r: "forward_mlx_loop decode lm_head enc bsz n (ids1, msk1) = Inr (ids', msk')"
    by (auto simp: ebind_Inr_iff)
  from step_result[OF s] have l1: "length ids1 = length ids"
    and m1: "msk1 = map (\<lambda>r. r @ [1]) msk"
    and r1: "\<forall>i<length ids. \<exists>t. ids1 ! i = ids ! i @ [t]" by auto
  from Suc.IH[OF r] have l2: "length ids' = length ids1"
    and r2: "\<forall>i<length ids1. length (ids' ! i) = length (ids1 ! i) + n
                         \<and> take (length (ids1 ! i)) (ids' ! i) = ids1 ! i"
    and m2: "msk' = map (\<lambda>r. r @ replicate n 1) msk1" by auto
  have "\<forall>i<length ids. length (ids' ! i) = length (ids ! i) + Suc n
                         \<and> take (length (ids ! i)) (ids' ! i) = ids ! i"
  proof (intro allI impI)
    fix i assume i: "i < length ids"
    from r1 i obtain t where t: "ids1 ! i = ids ! i @ [t]" by auto
    from r2 i l1 have a: "length (ids' ! i) = length (ids1 ! i) + n"
      and b: "take (length (ids1 ! i)) (ids' ! i) = ids1 ! i" by auto
    have "take (length (ids ! i)) (ids' ! i)
            = take (length (ids ! i)) (take (length (ids1 ! i)) (ids' ! i))"
      by (simp add: t min_def)
    also have "\<dots> = ids ! i" unfolding b by (simp add: t)
    finally show "length (ids' ! i) = length (ids ! i) + Suc n
                         \<and> take (length (ids ! i)) (ids' ! i) = ids ! i"
      using a t by simp
  qed
  moreover have "msk' = map (\<lambda>r. r @ replicate (Suc n) 1) msk"
    unfolding m2 m1 by (simp add: replicate_app_Cons_same)
  ultimately show ?case using l1 l2 by simp
qed

lemma loop_split:
  "forward_mlx_loop decode lm_head enc bsz (k + m) st
   = ebind (forward_mlx_loop decode lm_head enc bsz k st) (forward_mlx_loop decode lm_head enc bsz m)"
proof (induction k arbitrary: st)
  case 0
  then show ?case by simp
next
  case (Suc k)
  have "forward_mlx_loop decode lm_head enc bsz (k + m)
          = (\<lambda>x. ebind (forward_mlx_loop decode lm_head enc bsz k x)
                      (forward_mlx_loop decode lm_head enc bsz m))"
    by (rule ext) (rule Suc.IH)
  then show ?case by (simp add: ebind_assoc)
qed

lemma loop_step_at:
  assumes "forward_mlx_loop decode lm_head enc bsz n (ids, msk) = Inr (ids', msk')"
      and k: "k < n"
  shows "\<exists>ids_k msk_k outputs all_logits.
              forward_mlx_loop decode lm_head enc bsz k (ids, msk) = Inr (ids_k, msk_k)
            \<and> decode ids_k msk_k enc = Inr outputs
            \<and> lm_head outputs = Inr all_logits
            \<and> length all_logits = length ids
            \<and> (\<forall>i<length ids.
                  ids_k ! i = take (length (ids ! i) + k) (ids' ! i)
                \<and> last (all_logits ! i) \<noteq> []
                \<and> ids' ! i ! (length (ids ! i) + k) = int (argmax_row (last (all_logits ! i)))
                \<and> argmax_row (last (all_logits ! i)) < length (last (all_logits ! i))
                \<and> (\<forall>v\<in>set (last (all_logits ! i)).
                      v \<le> last (all_logits ! i) ! argmax_row (last (all_logits ! i)))
                \<and> (\<forall>j<argmax_row (last (all_logits ! i)).
                      last (all_logits ! i) ! j
                        < last (all_logits ! i) ! argmax_row (last (all_logits ! i))))"
proof -
  from less_imp_Suc_add[OF k] obtain m where "n = Suc (k + m)" ..
  then have n: "n = k + Suc m" by simp
  have "ebind (forward_mlx_loop decode lm_head enc bsz k (ids, msk))
          (forward_mlx_loop decode lm_head enc bsz (Suc m)) = Inr (ids', msk')"
    using assms(1) unfolding n loop_split .
  then obtain st_k where
      lk0: "forward_mlx_loop decode lm_head enc bsz k (ids, msk) = Inr st_k"
    and r0: "forward_mlx_loop decode lm_head enc bsz (Suc m) st_k = Inr (ids', msk')"
    unfolding ebind_Inr_iff by blast
  obtain ids_k msk_k where st_k: "st_k = (ids_k, msk_k)" by (cases st_k)
  from r0 have "ebind (forward_mlx_step decode lm_head enc bsz (ids_k, msk_k))
                  (forward_mlx_loop decode lm_head enc bsz m) = Inr (ids', msk')"
    unfolding st_k by simp
  then obtain st1 where
      s0: "forward_mlx_step decode lm_head enc bsz (ids_k, msk_k) = Inr st1"
    and lm0: "forward_mlx_loop decode lm_head enc bsz m st1 = Inr (ids', msk')"
    unfolding ebind_Inr_iff by blast
  obtain ids1 msk1 where st1: "st1 = (ids1, msk1)" by (cases st1)
  note lk = lk0[unfolded st_k] and s = s0[unfolded st1] and lm = lm0[unfolded st1]
  from loop_rows[OF lk] have k1: "length ids_k = length ids"
    and k2: "\<forall>i<length ids. length (ids_k ! i) = length (ids ! i) + k" by simp_all
  from step_result[OF s] obtain outputs all_logits where
      d: "decode ids_k msk_k enc = Inr outputs" and l: "lm_head outputs = Inr all_logits"
    and al: "length all_logits = length ids_k"
    and st: "\<forall>i<length ids_k. all_logits ! i \<noteq> [] \<and> last (all_logits ! i) \<noteq> []
               \<and> ids1 ! i = ids_k ! i @ [int (argmax_row (last (all_logits ! i)))]"
    and l1: "length ids1 = length ids_k" by blast
  from loop_rows[OF lm] have
    m2: "\<forall>i<length ids1. length (ids' ! i) = length (ids1 ! i) + m
                          \<and> take (length (ids1 ! i)) (ids' ! i) = ids1 ! i" by simp
  have rows: "\<forall>i<length ids.
                  ids_k ! i = take (length (ids ! i) + k) (ids' ! i)
                \<and> last (all_logits ! i) \<noteq> []
                \<and> ids' ! i ! (length (ids ! i) + k) = int (argmax_row (last (all_logits ! i)))
                \<and> argmax_row (last (all_logits ! i)) < length (last (all_logits ! i))
                \<and> (\<forall>v\<in>set (last (all_logits ! i)).
                      v \<le> last (all_logits ! i) ! argmax_row (last (all_logits ! i)))
                \<and> (\<forall>j<argmax_row (last (all_logits ! i)).
                      last (all_logits ! i) ! j
                        < last (all_logits ! i) ! argmax_row (last (all_logits ! i)))"
  proof (intro allI impI)
    fix i assume i: "i < length ids"
    let ?row = "last (all_logits ! i)"
    let ?t = "int (argmax_row ?row)"
    from i k1 st have ne: "?row \<noteq> []" and e1: "ids1 ! i = ids_k ! i @ [?t]" by simp_all
    from i k2 have lenk: "length (ids_k ! i) = length (ids ! i) + k" by simp
    from i k1 l1 m2 have tk: "take (length (ids1 ! i)) (ids' ! i) = ids1 ! i" by simp
    have len1: "length (ids1 ! i) = Suc (length (ids ! i) + k)" using e1 lenk by simp
    have tk': "take (Suc (length (ids ! i) + k)) (ids' ! i) = ids_k ! i @ [?t]"
      using tk len1 e1 by simp
    have "ids' ! i ! (length (ids ! i) + k)
            = take (Suc (length (ids ! i) + k)) (ids' ! i) ! (length (ids ! i) + k)"
      by simp
    also have "\<dots> = (ids_k ! i @ [?t]) ! (length (ids ! i) + k)"
      by (simp only: tk')
    also have "\<dots> = ?t" using lenk by (simp add: nth_append)
    finally have tok: "ids' ! i ! (length (ids ! i) + k) = ?t" .
    have "take (length (ids ! i) + k) (ids' ! i)
            = take (length (ids ! i) + k) (take (Suc (length (ids ! i) + k)) (ids' ! i))"
      by (simp add: min_def)
    also have "\<dots> = take (length (ids ! i) + k) (ids_k ! i @ [?t])"
      by (simp only: tk')
    also have "\<dots> = ids_k ! i" using lenk by simp
    finally have pre: "ids_k ! i = take (length (ids ! i) + k) (ids' ! i)" by simp
    have mx: "?row ! argmax_row ?row = max_list ?row" by (rule argmax_row_max[OF ne])
    have ge: "\<forall>v\<in>set ?row. v \<le> ?row ! argmax_row ?row"
      unfolding mx by (simp add: max_list_ge)
    have fst: "\<forall>j<argmax_row ?row. ?row ! j < ?row ! argmax_row ?row"
      unfolding mx by (simp add: argmax_row_first)
    show "ids_k ! i = take (length (ids ! i) + k) (ids' ! i)
              \<and> ?row \<noteq> []
              \<and> ids' ! i ! (length (ids ! i) + k) = ?t
              \<and> argmax_row ?row < length ?row
              \<and> (\<forall>v\<in>set ?row. v \<le> ?row ! argmax_row ?row)
              \<and> (\<forall>j<argmax_row ?row. ?row ! j < ?row ! argmax_row ?row)"
      by (intro conjI pre ne tok argmax_row_less[OF ne] ge fst)
  qed
  have len: "length all_logits = length ids" using al k1 by simp
  show ?thesis
    by (intro exI conjI) (rule lk, rule d, rule l, rule len, rule rows)
qed

text \<open>
  C7.  Take any run of the loop for \<open>n\<close> steps that returns, from ids \<open>ids\<close> and mask
  \<open>msk\<close> to \<open>ids'\<close> and \<open>msk'\<close>.  Every row of \<open>ids'\<close> is the row of \<open>ids\<close> followed by
  exactly \<open>n\<close> tokens, and every row of the mask is extended by \<open>n\<close> ones.  The token
  appended at step \<open>k\<close> is, in each row, the first index that holds the greatest logit of
  the last position, for the logits that the decoder and the head return on the ids and
  mask after \<open>k\<close> steps.
\<close>

theorem greedy_loop_appends_argmax:
  assumes "forward_mlx_loop decode lm_head enc bsz n (ids, msk) = Inr (ids', msk')"
  shows "length ids' = length ids
       \<and> (\<forall>i<length ids. length (ids' ! i) = length (ids ! i) + n
                         \<and> take (length (ids ! i)) (ids' ! i) = ids ! i)
       \<and> msk' = map (\<lambda>r. r @ replicate n 1) msk
       \<and> (\<forall>k<n. \<exists>ids_k msk_k outputs all_logits.
              forward_mlx_loop decode lm_head enc bsz k (ids, msk) = Inr (ids_k, msk_k)
            \<and> decode ids_k msk_k enc = Inr outputs
            \<and> lm_head outputs = Inr all_logits
            \<and> length all_logits = length ids
            \<and> (\<forall>i<length ids.
                  ids_k ! i = take (length (ids ! i) + k) (ids' ! i)
                \<and> last (all_logits ! i) \<noteq> []
                \<and> ids' ! i ! (length (ids ! i) + k) = int (argmax_row (last (all_logits ! i)))
                \<and> argmax_row (last (all_logits ! i)) < length (last (all_logits ! i))
                \<and> (\<forall>v\<in>set (last (all_logits ! i)).
                      v \<le> last (all_logits ! i) ! argmax_row (last (all_logits ! i)))
                \<and> (\<forall>j<argmax_row (last (all_logits ! i)).
                      last (all_logits ! i) ! j
                        < last (all_logits ! i) ! argmax_row (last (all_logits ! i)))))"
proof -
  note rows = loop_rows[OF assms]
  show ?thesis
  proof (intro conjI)
    show "length ids' = length ids" using rows by simp
    show "\<forall>i<length ids. length (ids' ! i) = length (ids ! i) + n
                         \<and> take (length (ids ! i)) (ids' ! i) = ids ! i" using rows by simp
    show "msk' = map (\<lambda>r. r @ replicate n 1) msk" using rows by simp
  qed (intro allI impI, rule loop_step_at[OF assms])
qed


text \<open>
  The theorem on the run of the test: ten steps from \<open>[[2, 7], [2, 7]]\<close> with a head
  that always scores id 1 highest.  The run returns rows of length \<open>2 + 10\<close>, the
  original ids followed by ten times the id 1, and a mask of twelve ones per row.
\<close>

theorem greedy_loop_appends_argmax_witness:
  "forward_mlx_loop example_decode example_lm_head () 2 10
       ([[2, 7], [2, 7]], [[1, 1], [1, 1]])
     = Inr ([[2, 7, 1, 1, 1, 1, 1, 1, 1, 1, 1, 1], [2, 7, 1, 1, 1, 1, 1, 1, 1, 1, 1, 1]],
            [[1, 1, 1, 1, 1, 1, 1, 1, 1, 1, 1, 1], [1, 1, 1, 1, 1, 1, 1, 1, 1, 1, 1, 1]])
   \<and> length [[2, 7, 1, 1, 1, 1, 1, 1, 1, 1, 1, 1], [2, 7, 1, 1, 1, 1, 1, 1, 1, 1, 1, 1 :: int]]
       = length [[2, 7], [2, 7 :: int]]
   \<and> [[1, 1, 1, 1, 1, 1, 1, 1, 1, 1, 1, 1], [1, 1, 1, 1, 1, 1, 1, 1, 1, 1, 1, 1 :: real]]
       = map (\<lambda>r. r @ replicate 10 1) [[1, 1], [1, 1]]"
proof -
  have h: "forward_mlx_loop example_decode example_lm_head () 2 10
       ([[2, 7], [2, 7]], [[1, 1], [1, 1]])
     = Inr ([[2, 7, 1, 1, 1, 1, 1, 1, 1, 1, 1, 1], [2, 7, 1, 1, 1, 1, 1, 1, 1, 1, 1, 1]],
            [[1, 1, 1, 1, 1, 1, 1, 1, 1, 1, 1, 1], [1, 1, 1, 1, 1, 1, 1, 1, 1, 1, 1, 1]])"
    by (simp add: eval_nat_numeral forward_mlx_step_def example_decode_def example_lm_head_def
        last_position_def mx_argmax_def argmax_row_def concatenate_axis1_def)
  from greedy_loop_appends_argmax[OF h] show ?thesis using h by blast
qed

text \<open>\<^verbatim>\<open>forward_mlx\<close> runs the loop for ten steps from two rows of two ids.\<close>

lemma forward_mlx_length:
  assumes "forward_mlx encode decode lm_head eos lang bsz = Inr ids'"
  shows "length ids' = 2 \<and> (\<forall>i<2. length (ids' ! i) = 12 \<and> take 2 (ids' ! i) = [eos, lang])"
proof -
  from assms obtain enc msk' where
    l: "forward_mlx_loop decode lm_head enc bsz 10
          (replicate 2 [eos, lang], replicate 2 [1, 1]) = Inr (ids', msk')"
    by (auto simp: forward_mlx_def Let_def ebind_Inr_iff)
  from loop_rows[OF l] show ?thesis by (auto simp: less_Suc_eq eval_nat_numeral)
qed

end
